theory Spec2Isabelle
  imports Complex_Main
begin

section \<open>Kiln data model: values, entities and errors\<close>

text \<open>
  The development follows \<^verbatim>\<open>libs/core/kiln_ai/datamodel/__init__.py\<close>. Every pydantic
  model is a record, every enum a datatype, and every \<^verbatim>\<open>raise ValueError(...)\<close> of a
  validator is a constructor of \<open>error\<close>, so a validator is a function into
  \<open>error + 'a\<close> that returns \<open>Inr self\<close> where the Python returns \<^verbatim>\<open>self\<close>.
\<close>

subsection \<open>Python floats\<close>

text \<open>
  A Python \<^verbatim>\<open>float\<close> is a finite binary fraction, an infinity or a NaN. Every finite float
  is a rational number, and \<^verbatim>\<open>is_integer\<close> and the comparisons against the literals
  \<^verbatim>\<open>1\<close> and \<^verbatim>\<open>5\<close> are exact, so the finite floats are embedded in \<open>rat\<close>.
\<close>

datatype pyfloat = Finite rat | PosInf | NegInf | NaN

fun is_integer :: "pyfloat \<Rightarrow> bool" where
  "is_integer (Finite r) = (of_int \<lfloor>r\<rfloor> = r)"
| "is_integer PosInf = False"
| "is_integer NegInf = False"
| "is_integer NaN = False"

fun float_lt_int :: "pyfloat \<Rightarrow> int \<Rightarrow> bool" where
  "float_lt_int (Finite r) n = (r < of_int n)"
| "float_lt_int PosInf n = False"
| "float_lt_int NegInf n = True"
| "float_lt_int NaN n = False"

fun float_gt_int :: "pyfloat \<Rightarrow> int \<Rightarrow> bool" where
  "float_gt_int (Finite r) n = (of_int n < r)"
| "float_gt_int PosInf n = True"
| "float_gt_int NegInf n = False"
| "float_gt_int NaN n = False"

subsection \<open>Enumerations\<close>

datatype Priority = p0 | p1 | p2 | p3

datatype TaskOutputRatingType = five_star | custom

datatype DataSourceType = human | synthetic

datatype TaskDeterminism = deterministic | semantic_match | flexible

subsection \<open>Errors\<close>

text \<open>
  One constructor for each \<^verbatim>\<open>raise\<close> of the module and for each failing field constraint
  of \<^verbatim>\<open>NAME_FIELD\<close> and \<^verbatim>\<open>Field(min_length=1)\<close>. The argument is the data the message
  interpolates. The last three are the error kinds that the specification gives to loading
  and saving.
\<close>

text \<open>
  Modelled from the spec: \<^verbatim>\<open>ID_TYPE\<close> is imported from \<^verbatim>\<open>basemodel.py\<close>, which is not part
  of the sources at hand; the specification describes an identifier as an opaque stable string.
\<close>

type_synonym ID_TYPE = string

datatype error =
    InvalidRatingType
  | FiveStarNotInteger string
  | FiveStarOutOfRange string
  | OutputNotJson
  | OutputSchemaMismatch string
  | InvalidParentTaskRun
  | InvalidParentTask
  | InvalidRequirementId ID_TYPE
  | InvalidSourceType
  | SourcePropertyEmpty string DataSourceType
  | SourcePropertiesMissing "string list" DataSourceType
  | InputNotJson
  | InputSchemaMismatch string
  | PropertyRequired string DataSourceType
  | PropertyWrongType string DataSourceType
  | PropertyNotAllowed string DataSourceType
  | StringTooShort
  | StringTooLong
  | StringPatternMismatch
  | InvalidSchema string
  | NotFoundError
  | ParseError
  | IOError

subsection \<open>TaskOutputRating\<close>

record TaskOutputRating =
  rating_type :: TaskOutputRatingType
  rating_rating :: pyfloat
  rating_requirement_ratings :: "(ID_TYPE \<times> pyfloat) list"

text \<open>
  \<^verbatim>\<open>requirement_ratings\<close> is a dictionary that the validators iterate over, so it is an
  association list in insertion order. The fields are typed \<^verbatim>\<open>float\<close> and pydantic has
  converted them before an \<^verbatim>\<open>after\<close> validator runs, so \<^verbatim>\<open>isinstance(rating, float)\<close>
  holds for every value of the type; likewise \<^verbatim>\<open>self.type not in TaskOutputRatingType\<close>
  is false for every value of the enumeration.
\<close>

definition validate_five_star :: "pyfloat \<Rightarrow> string \<Rightarrow> error + unit" where
  "validate_five_star rating rating_name =
     (if \<not> is_integer rating then Inl (FiveStarNotInteger rating_name)
      else if float_lt_int rating 1 \<or> float_gt_int rating 5
        then Inl (FiveStarOutOfRange rating_name)
      else Inr ())"

fun validate_requirement_ratings :: "(ID_TYPE \<times> pyfloat) list \<Rightarrow> error + unit" where
  "validate_requirement_ratings [] = Inr ()"
| "validate_requirement_ratings ((req_id, req_rating) # items) =
     (case validate_five_star req_rating (''requirement rating for '' @ req_id) of
        Inl e \<Rightarrow> Inl e
      | Inr _ \<Rightarrow> validate_requirement_ratings items)"

definition validate_rating :: "TaskOutputRating \<Rightarrow> error + TaskOutputRating" where
  "validate_rating self =
     (if rating_type self = five_star then
        (case validate_five_star (rating_rating self) ''overall rating'' of
           Inl e \<Rightarrow> Inl e
         | Inr _ \<Rightarrow>
            (case validate_requirement_ratings (rating_requirement_ratings self) of
               Inl e \<Rightarrow> Inl e
             | Inr _ \<Rightarrow> Inr self))
      else Inr self)"

text \<open>
  The specification's wording of the five-star rule: a value with no fractional part lying
  in the interval from 1 to 5.
\<close>

definition spec_five_star :: "pyfloat \<Rightarrow> bool" where
  "spec_five_star v = (\<exists>n::int. 1 \<le> n \<and> n \<le> 5 \<and> v = Finite (of_int n))"

subsection \<open>DataSource\<close>

text \<open>
  The class DataSource holds the only table of the module that forbids a property for a
  source type. A property value is a \<^verbatim>\<open>str\<close>, an \<^verbatim>\<open>int\<close> or a \<^verbatim>\<open>float\<close>, and
  \<^verbatim>\<open>eval(prop.type)\<close> is the class that the literal names.
\<close>

datatype property_value = PStr string | PInt int | PFloat pyfloat

datatype property_type = type_str | type_int | type_float

record DataSourceProperty =
  prop_name :: string
  prop_type :: property_type
  required_for :: "DataSourceType list"
  not_allowed_for :: "DataSourceType list"

record DataSource =
  ds_type :: DataSourceType
  ds_properties :: "string \<rightharpoonup> property_value"

definition data_source_properties :: "DataSourceProperty list" where
  "data_source_properties =
     [\<lparr>prop_name = ''created_by'', prop_type = type_str,
       required_for = [human], not_allowed_for = [synthetic]\<rparr>,
      \<lparr>prop_name = ''model_name'', prop_type = type_str,
       required_for = [synthetic], not_allowed_for = [human]\<rparr>,
      \<lparr>prop_name = ''model_provider'', prop_type = type_str,
       required_for = [synthetic], not_allowed_for = [human]\<rparr>,
      \<lparr>prop_name = ''prompt_type'', prop_type = type_str,
       required_for = [], not_allowed_for = [human]\<rparr>]"

fun isinstance_of :: "property_value \<Rightarrow> property_type \<Rightarrow> bool" where
  "isinstance_of (PStr _) type_str = True"
| "isinstance_of (PInt _) type_int = True"
| "isinstance_of (PFloat _) type_float = True"
| "isinstance_of _ _ = False"

fun check_properties :: "DataSourceProperty list \<Rightarrow> DataSource \<Rightarrow> error + unit" where
  "check_properties [] self = Inr ()"
| "check_properties (prop # props) self =
     (if ds_type self \<in> set (required_for prop) then
        (case ds_properties self (prop_name prop) of
           None \<Rightarrow> Inl (PropertyRequired (prop_name prop) (ds_type self))
         | Some v \<Rightarrow>
            if \<not> isinstance_of v (prop_type prop)
            then Inl (PropertyWrongType (prop_name prop) (ds_type self))
            else check_properties props self)
      else if ds_type self \<in> set (not_allowed_for prop) \<and>
              ds_properties self (prop_name prop) \<noteq> None
        then Inl (PropertyNotAllowed (prop_name prop) (ds_type self))
      else check_properties props self)"

definition validate_properties :: "DataSource \<Rightarrow> error + DataSource" where
  "validate_properties self =
     (case check_properties data_source_properties self of
        Inl e \<Rightarrow> Inl e
      | Inr _ \<Rightarrow> Inr self)"

subsection \<open>Parents\<close>

text \<open>
  \<^verbatim>\<open>self.parent\<close> is a property of \<^verbatim>\<open>KilnParentedModel\<close> in \<^verbatim>\<open>basemodel.py\<close>, which
  is not part of the sources at hand. The validators only distinguish three results of
  reading it: \<^verbatim>\<open>None\<close>, an object that passes the \<^verbatim>\<open>isinstance\<close> test the validator
  makes, and an object that fails it.
\<close>

datatype 'a parent_ref = NoParent | IsInstance 'a | NotInstance

subsection \<open>Project, Task, TaskRequirement\<close>

record Project =
  project_name :: string
  project_description :: string

record Task =
  task_name :: string
  task_description :: string
  task_priority :: Priority
  task_determinism :: TaskDeterminism
  task_instruction :: string
  output_json_schema :: "string option"
  input_json_schema :: "string option"

record TaskRequirement =
  req_id :: ID_TYPE
  req_name :: string
  req_description :: string
  req_instruction :: string
  req_priority :: Priority

text \<open>
  \<^verbatim>\<open>NAME_REGEX = r"^[A-Za-z0-9 _-]+$"\<close>: one or more characters of the class, anchored at
  both ends (pydantic matches a \<^verbatim>\<open>pattern\<close> with its own engine, for which \<^verbatim>\<open>$\<close> is the
  end of the text). The class is three ranges of code points and three single characters. A
  \<open>string\<close> is the UTF-8 text of the Python string: a character outside ASCII becomes
  bytes above 127, which no range of the class contains, and on the strings the class
  accepts bytes and code points coincide, so the two lengths agree wherever it matters.
\<close>

definition in_range :: "char \<Rightarrow> char \<Rightarrow> char \<Rightarrow> bool" where
  "in_range lo hi c = ((of_char lo :: nat) \<le> of_char c \<and> (of_char c :: nat) \<le> of_char hi)"

definition name_class :: "char \<Rightarrow> bool" where
  "name_class c =
     (in_range CHR ''A'' CHR ''Z'' c \<or> in_range CHR ''a'' CHR ''z'' c \<or>
      in_range CHR ''0'' CHR ''9'' c \<or> c = CHR '' '' \<or> c = CHR ''_'' \<or> c = CHR ''-'')"

fun match_plus :: "(char \<Rightarrow> bool) \<Rightarrow> string \<Rightarrow> bool" where
  "match_plus cls [] = False"
| "match_plus cls [c] = cls c"
| "match_plus cls (c # cs) = (cls c \<and> match_plus cls cs)"

definition NAME_REGEX :: "string \<Rightarrow> bool" where
  "NAME_REGEX s = match_plus name_class s"

definition NAME_FIELD :: "string \<Rightarrow> error + string" where
  "NAME_FIELD v =
     (if length v < 1 then Inl StringTooShort
      else if length v > 120 then Inl StringTooLong
      else if \<not> NAME_REGEX v then Inl StringPatternMismatch
      else Inr v)"

text \<open>
  pydantic checks every field and reports all failures together; the validations below
  return the first failure in the order of the fields, which decides success and failure
  the same way.
\<close>

definition min_length_1 :: "string \<Rightarrow> error + string" where
  "min_length_1 v = (if length v < 1 then Inl StringTooShort else Inr v)"

definition Project_validate :: "Project \<Rightarrow> error + Project" where
  "Project_validate self =
     (case NAME_FIELD (project_name self) of Inl e \<Rightarrow> Inl e | Inr _ \<Rightarrow> Inr self)"

definition TaskRequirement_validate :: "TaskRequirement \<Rightarrow> error + TaskRequirement" where
  "TaskRequirement_validate self =
     (case NAME_FIELD (req_name self) of
        Inl e \<Rightarrow> Inl e
      | Inr _ \<Rightarrow>
         (case min_length_1 (req_instruction self) of Inl e \<Rightarrow> Inl e | Inr _ \<Rightarrow> Inr self))"

text \<open>
  The two schema fields of a Task have the type \<^verbatim>\<open>JsonObjectSchema\<close> of
  \<^verbatim>\<open>json_schema.py\<close>, which is not part of the sources at hand; its check of a schema
  text is the parameter \<open>schema_error\<close> (\<open>None\<close> when the text is accepted).
\<close>

definition check_schema_field :: "(string \<Rightarrow> string option) \<Rightarrow> string option \<Rightarrow> error + unit" where
  "check_schema_field schema_error v =
     (case v of
        None \<Rightarrow> Inr ()
      | Some txt \<Rightarrow> (case schema_error txt of None \<Rightarrow> Inr () | Some e \<Rightarrow> Inl (InvalidSchema e)))"

definition Task_validate :: "(string \<Rightarrow> string option) \<Rightarrow> Task \<Rightarrow> error + Task" where
  "Task_validate schema_error self =
     (case NAME_FIELD (task_name self) of
        Inl e \<Rightarrow> Inl e
      | Inr _ \<Rightarrow>
         (case min_length_1 (task_instruction self) of
            Inl e \<Rightarrow> Inl e
          | Inr _ \<Rightarrow>
             (case check_schema_field schema_error (output_json_schema self) of
                Inl e \<Rightarrow> Inl e
              | Inr _ \<Rightarrow>
                 (case check_schema_field schema_error (input_json_schema self) of
                    Inl e \<Rightarrow> Inl e
                  | Inr _ \<Rightarrow> Inr self))))"

subsection \<open>TaskRun\<close>

record TaskRun =
  run_input :: string
  run_source :: DataSourceType
  run_source_properties :: "string \<rightharpoonup> string"
  run_parent :: "Task parent_ref"

text \<open>
  \<^verbatim>\<open>json.loads\<close> belongs to the Python library and \<^verbatim>\<open>validate_schema\<close> to
  \<^verbatim>\<open>json_schema.py\<close>, which is not part of the sources at hand. Both are parameters of the
  validators: \<open>json_loads\<close> returns \<open>None\<close> where Python raises \<^verbatim>\<open>JSONDecodeError\<close>,
  and \<open>validate_schema\<close> returns \<open>Some e\<close> where it raises the jsonschema
  \<^verbatim>\<open>ValidationError\<close> \<open>e\<close>.
\<close>

definition validate_input_format ::
  "(string \<Rightarrow> 'j option) \<Rightarrow> ('j \<Rightarrow> string \<Rightarrow> string option) \<Rightarrow> TaskRun \<Rightarrow> error + TaskRun" where
  "validate_input_format json_loads validate_schema self =
     (case run_parent self of
        NoParent \<Rightarrow> Inr self
      | NotInstance \<Rightarrow> Inl InvalidParentTask
      | IsInstance task \<Rightarrow>
         (case input_json_schema task of
            None \<Rightarrow> Inr self
          | Some schema \<Rightarrow>
             (case json_loads (run_input self) of
                None \<Rightarrow> Inl InputNotJson
              | Some instance \<Rightarrow>
                 (case validate_schema instance schema of
                    Some e \<Rightarrow> Inl (InputSchemaMismatch e)
                  | None \<Rightarrow> Inr self))))"

text \<open>
  \<^verbatim>\<open>validate_input_format\<close> is the only validator the class TaskRun declares; its
  \<^verbatim>\<open>source_properties\<close> carries a TODO and no validator.
\<close>

definition TaskRun_validate ::
  "(string \<Rightarrow> 'j option) \<Rightarrow> ('j \<Rightarrow> string \<Rightarrow> string option) \<Rightarrow> TaskRun \<Rightarrow> error + TaskRun" where
  "TaskRun_validate json_loads validate_schema self =
     validate_input_format json_loads validate_schema self"

subsection \<open>TaskOutput\<close>

record TaskOutput =
  out_output :: string
  out_source :: DataSourceType
  out_source_properties :: "string \<rightharpoonup> string"
  out_rating :: "TaskOutputRating option"
  out_fixed_output :: "string option"
  out_parent :: "TaskRun parent_ref"

definition parent_task_run :: "TaskOutput \<Rightarrow> TaskRun option" where
  "parent_task_run self =
     (case out_parent self of IsInstance r \<Rightarrow> Some r | NoParent \<Rightarrow> None | NotInstance \<Rightarrow> None)"

text \<open>
  \<^verbatim>\<open>task_for_validation\<close> tests its \<^verbatim>\<open>parent_task_run()\<close> result against
  \<^verbatim>\<open>TaskRun\<close> again; that result is a TaskRun or \<^verbatim>\<open>None\<close>, so the first \<^verbatim>\<open>raise\<close> is
  never reached and the model has no branch for it.
\<close>

definition task_for_validation :: "TaskOutput \<Rightarrow> error + Task option" where
  "task_for_validation self =
     (case parent_task_run self of
        None \<Rightarrow> Inr None
      | Some task_output \<Rightarrow>
         (case run_parent task_output of
            NoParent \<Rightarrow> Inr None
          | NotInstance \<Rightarrow> Inl InvalidParentTask
          | IsInstance task \<Rightarrow> Inr (Some task)))"

definition validate_output_format ::
  "(string \<Rightarrow> 'j option) \<Rightarrow> ('j \<Rightarrow> string \<Rightarrow> string option) \<Rightarrow> TaskOutput \<Rightarrow> error + TaskOutput" where
  "validate_output_format json_loads validate_schema self =
     (case task_for_validation self of
        Inl e \<Rightarrow> Inl e
      | Inr None \<Rightarrow> Inr self
      | Inr (Some task) \<Rightarrow>
         (case output_json_schema task of
            None \<Rightarrow> Inr self
          | Some schema \<Rightarrow>
             (case json_loads (out_output self) of
                None \<Rightarrow> Inl OutputNotJson
              | Some instance \<Rightarrow>
                 (case validate_schema instance schema of
                    Some e \<Rightarrow> Inl (OutputSchemaMismatch e)
                  | None \<Rightarrow> Inr self))))"

fun check_rating_keys :: "ID_TYPE list \<Rightarrow> ID_TYPE list \<Rightarrow> error + unit" where
  "check_rating_keys [] valid_requirement_ids = Inr ()"
| "check_rating_keys (key # keys) valid_requirement_ids =
     (if key \<notin> set valid_requirement_ids then Inl (InvalidRequirementId key)
      else check_rating_keys keys valid_requirement_ids)"

text \<open>
  \<^verbatim>\<open>task.requirements()\<close> belongs to \<^verbatim>\<open>KilnParentModel\<close> in \<^verbatim>\<open>basemodel.py\<close>, which is
  not part of the sources at hand; the requirements it finds for a task are the parameter
  \<open>requirements\<close>.
\<close>

definition validate_requirement_rating_keys ::
  "(Task \<Rightarrow> TaskRequirement list) \<Rightarrow> TaskOutput \<Rightarrow> error + TaskOutput" where
  "validate_requirement_rating_keys requirements self =
     (case out_rating self of
        None \<Rightarrow> Inr self
      | Some rating \<Rightarrow>
         if length (rating_requirement_ratings rating) = 0 then Inr self
         else
           (case task_for_validation self of
              Inl e \<Rightarrow> Inl e
            | Inr None \<Rightarrow> Inr self
            | Inr (Some task) \<Rightarrow>
               (case check_rating_keys (map fst (rating_requirement_ratings rating))
                       (map req_id (requirements task)) of
                  Inl e \<Rightarrow> Inl e
                | Inr _ \<Rightarrow> Inr self)))"

text \<open>
  \<^verbatim>\<open>required_keys\<close> is a Python set, whose iteration order is not fixed; the list below
  is the order the source writes. The \<^verbatim>\<open>else\<close> branch for an unknown source type has no
  counterpart: the enumeration has the two values only.
\<close>

fun required_keys :: "DataSourceType \<Rightarrow> string list" where
  "required_keys synthetic =
     [''adapter_name'', ''model_name'', ''model_provider'', ''prompt_builder_name'']"
| "required_keys human = [''creator'']"

fun check_required_keys ::
  "string list \<Rightarrow> (string \<rightharpoonup> string) \<Rightarrow> DataSourceType \<Rightarrow> string list \<Rightarrow> error + string list" where
  "check_required_keys [] props src missing_keys = Inr missing_keys"
| "check_required_keys (key # keys) props src missing_keys =
     (case props key of
        None \<Rightarrow> check_required_keys keys props src (missing_keys @ [key])
      | Some v \<Rightarrow>
         if v = [] then Inl (SourcePropertyEmpty key src)
         else check_required_keys keys props src missing_keys)"

definition validate_source_properties_in ::
  "string list \<Rightarrow> TaskOutput \<Rightarrow> error + TaskOutput" where
  "validate_source_properties_in keys self =
     (case check_required_keys keys (out_source_properties self) (out_source self) [] of
        Inl e \<Rightarrow> Inl e
      | Inr missing_keys \<Rightarrow>
         if length missing_keys > 0
         then Inl (SourcePropertiesMissing missing_keys (out_source self))
         else Inr self)"

definition validate_source_properties :: "TaskOutput \<Rightarrow> error + TaskOutput" where
  "validate_source_properties self =
     validate_source_properties_in (required_keys (out_source self)) self"

text \<open>
  The three validators of TaskOutput run in the order the class declares them, and the
  first error ends the validation.
\<close>

definition TaskOutput_validate ::
  "(string \<Rightarrow> 'j option) \<Rightarrow> ('j \<Rightarrow> string \<Rightarrow> string option) \<Rightarrow>
   (Task \<Rightarrow> TaskRequirement list) \<Rightarrow> TaskOutput \<Rightarrow> error + TaskOutput" where
  "TaskOutput_validate json_loads validate_schema requirements self =
     (case validate_output_format json_loads validate_schema self of
        Inl e \<Rightarrow> Inl e
      | Inr self1 \<Rightarrow>
         (case validate_requirement_rating_keys requirements self1 of
            Inl e \<Rightarrow> Inl e
          | Inr self2 \<Rightarrow> validate_source_properties self2))"

text \<open>
  The specification's wording of schema conformance: the text parses as JSON and the parsed
  value validates against the schema.
\<close>

definition spec_conforms ::
  "(string \<Rightarrow> 'j option) \<Rightarrow> ('j \<Rightarrow> string \<Rightarrow> string option) \<Rightarrow> string \<Rightarrow> string \<Rightarrow> bool" where
  "spec_conforms json_loads validate_schema schema txt =
     (\<exists>instance. json_loads txt = Some instance \<and> validate_schema instance schema = None)"

subsection \<open>Persistence\<close>

text \<open>
  Modelled from the spec: \<^verbatim>\<open>save_to_file\<close>, \<^verbatim>\<open>load_from_file\<close>, the lookup of a parent
  and the listing of children belong to \<^verbatim>\<open>basemodel.py\<close>, which is not part of the
  sources at hand. The definitions of this subsection follow sections 3, 4.3 to 4.5, 5 and
  6 of the specification; the validators they run are the ones of the code above.
\<close>

text \<open>
  Modelled from the spec: a path is its list of segments; the on-disk layout is
  \<^verbatim>\<open><parent-dir>/<relationship>/<id>/<canonical filename>\<close>.
\<close>

type_synonym path = "string list"

datatype kind = project_kind | task_kind | task_requirement_kind | task_run_kind | task_output_kind

text \<open>
  Modelled from the spec: the persisted fields of each entity type (section 3). The parent
  and the path are not among them: the parent is found again from the path.
\<close>

datatype fields =
    ProjectFields Project
  | TaskFields Task
  | TaskRequirementFields string string string Priority
  | TaskRunFields string DataSourceType "string \<rightharpoonup> string"
  | TaskOutputFields string DataSourceType "string \<rightharpoonup> string"
      "TaskOutputRating option" "string option"

text \<open>
  Modelled from the spec: a file holds one JSON object with the fields of the entity, its
  \<open>id\<close>, \<open>created_at\<close>, \<open>created_by\<close> and a marker of the entity type (here the
  constructor of \<open>fields\<close>). The file system maps paths to such objects, in the order of
  a directory listing.
\<close>

record document =
  doc_id :: ID_TYPE
  doc_created_at :: nat
  doc_created_by :: "string option"
  doc_fields :: fields

type_synonym disk = "(path \<times> document) list"

text \<open>
  Modelled from the spec: an entity in memory. \<open>ent_dir\<close> is the directory of its file
  once it has one, and \<open>ent_parent_dir\<close> the directory of the parent it was constructed
  with; \<open>id\<close> and \<open>created_at\<close> are unset until the first save.
\<close>

record entity =
  ent_id :: "ID_TYPE option"
  ent_dir :: "path option"
  ent_parent_dir :: "path option"
  ent_created_at :: "nat option"
  ent_created_by :: "string option"
  ent_fields :: fields

text \<open>Modelled from the spec: the entity type that the marker of a document names.\<close>

fun kind_of :: "fields \<Rightarrow> kind" where
  "kind_of (ProjectFields _) = project_kind"
| "kind_of (TaskFields _) = task_kind"
| "kind_of (TaskRequirementFields _ _ _ _) = task_requirement_kind"
| "kind_of (TaskRunFields _ _ _) = task_run_kind"
| "kind_of (TaskOutputFields _ _ _ _ _) = task_output_kind"

text \<open>Modelled from the spec: the canonical file name of each entity type (section 6).\<close>

fun base_filename :: "kind \<Rightarrow> string" where
  "base_filename project_kind = ''project.json''"
| "base_filename task_kind = ''task.json''"
| "base_filename task_requirement_kind = ''task_requirement.json''"
| "base_filename task_run_kind = ''task_run.json''"
| "base_filename task_output_kind = ''task_output.json''"

text \<open>
  Modelled from the spec: the subdirectory of the parent that holds the children of a
  type (section 6); a Project is a root and has none.
\<close>

fun relationship_name :: "kind \<Rightarrow> string option" where
  "relationship_name project_kind = None"
| "relationship_name task_kind = Some ''tasks''"
| "relationship_name task_requirement_kind = Some ''requirements''"
| "relationship_name task_run_kind = Some ''runs''"
| "relationship_name task_output_kind = Some ''outputs''"

text \<open>
  Modelled from the spec: the file of an entity is the canonical file name of its type in
  the entity's directory (section 4.3).
\<close>

definition file_path :: "path \<Rightarrow> kind \<Rightarrow> path" where
  "file_path d k = d @ [base_filename k]"

text \<open>
  Modelled from the spec: the directory of the parent, two segments up (the relationship
  and the identifier).
\<close>

definition parent_dir :: "path \<Rightarrow> path" where
  "parent_dir d = take (length d - 2) d"

text \<open>
  Modelled from the spec: the path of an entity is the one it has, or else is built from
  the parent it was constructed with, the relationship and its identifier (section 4.5).
\<close>

definition entity_dir :: "entity \<Rightarrow> ID_TYPE \<Rightarrow> path option" where
  "entity_dir e ident =
     (case ent_dir e of
        Some d \<Rightarrow> Some d
      | None \<Rightarrow>
         (case (ent_parent_dir e, relationship_name (kind_of (ent_fields e))) of
            (Some pd, Some rel) \<Rightarrow> Some (pd @ [rel, ident])
          | _ \<Rightarrow> None))"

text \<open>Modelled from the spec: the \<open>path\<close> of an entity, absent until it is saved.\<close>

definition entity_path :: "entity \<Rightarrow> path option" where
  "entity_path e = map_option (\<lambda>d. file_path d (kind_of (ent_fields e))) (ent_dir e)"

text \<open>
  Modelled from the spec: writing a file replaces the content at its path, or adds the file
  to the listing.
\<close>

fun write_file :: "path \<Rightarrow> document \<Rightarrow> disk \<Rightarrow> disk" where
  "write_file p doc [] = [(p, doc)]"
| "write_file p doc ((q, old) # rest) =
     (if q = p then (p, doc) # rest else (q, old) # write_file p doc rest)"

text \<open>
  Modelled from the spec: a parent is resolved from the path, by loading the canonical
  file of the parent directory, and is absent when there is none (section 4.4); validators
  read it from disk at each validation (section 5).
\<close>

definition resolve_task :: "disk \<Rightarrow> path \<Rightarrow> Task parent_ref" where
  "resolve_task fs d =
     (if length d < 2 then NoParent
      else
        (case map_of fs (file_path (parent_dir d) task_kind) of
           None \<Rightarrow> NoParent
         | Some doc \<Rightarrow>
            (case doc_fields doc of TaskFields t \<Rightarrow> IsInstance t | _ \<Rightarrow> NotInstance)))"

definition resolve_run :: "disk \<Rightarrow> path \<Rightarrow> TaskRun parent_ref" where
  "resolve_run fs d =
     (if length d < 2 then NoParent
      else
        (case map_of fs (file_path (parent_dir d) task_run_kind) of
           None \<Rightarrow> NoParent
         | Some doc \<Rightarrow>
            (case doc_fields doc of
               TaskRunFields i src props \<Rightarrow>
                 IsInstance \<lparr>run_input = i, run_source = src, run_source_properties = props,
                   run_parent = resolve_task fs (parent_dir d)\<rparr>
             | _ \<Rightarrow> NotInstance)))"

text \<open>
  Modelled from the spec: the children of a relationship are the files with the child's
  canonical name one identifier below the relationship's subdirectory (section 4.5).
\<close>

definition is_requirement_file :: "path \<Rightarrow> path \<Rightarrow> bool" where
  "is_requirement_file td p =
     (length p = length td + 3 \<and> take (length td) p = td \<and>
      p ! length td = ''requirements'' \<and> last p = base_filename task_requirement_kind)"

fun requirement_of :: "path \<Rightarrow> path \<times> document \<Rightarrow> TaskRequirement option" where
  "requirement_of td (p, doc) =
     (if is_requirement_file td p then
        (case doc_fields doc of
           TaskRequirementFields n de i pr \<Rightarrow>
             Some \<lparr>req_id = doc_id doc, req_name = n, req_description = de,
               req_instruction = i, req_priority = pr\<rparr>
         | _ \<Rightarrow> None)
      else None)"

definition requirements_at :: "disk \<Rightarrow> path \<Rightarrow> TaskRequirement list" where
  "requirements_at fs td = List.map_filter (requirement_of td) fs"

text \<open>
  The library functions that the validators take as parameters, in one record; \<open>failure\<close>
  is the error of a validation, if any.
\<close>

record 'j library =
  lib_json_loads :: "string \<Rightarrow> 'j option"
  lib_validate_schema :: "'j \<Rightarrow> string \<Rightarrow> string option"
  lib_schema_error :: "string \<Rightarrow> string option"

definition failure :: "error + 'a \<Rightarrow> error option" where
  "failure r = (case r of Inl e \<Rightarrow> Some e | Inr _ \<Rightarrow> None)"

text \<open>
  Modelled from the spec: all validators of the entity's type, run on the fields with the
  parent resolved from the directory \<open>d\<close> (section 4.6). The rating of a TaskOutput is a
  model of its own and is validated first.
\<close>

fun validate_fields :: "'j library \<Rightarrow> disk \<Rightarrow> path \<Rightarrow> ID_TYPE \<Rightarrow> fields \<Rightarrow> error option" where
  "validate_fields lib fs d ident (ProjectFields p) = failure (Project_validate p)"
| "validate_fields lib fs d ident (TaskFields t) =
     failure (Task_validate (lib_schema_error lib) t)"
| "validate_fields lib fs d ident (TaskRequirementFields n de i pr) =
     failure (TaskRequirement_validate
       \<lparr>req_id = ident, req_name = n, req_description = de, req_instruction = i,
        req_priority = pr\<rparr>)"
| "validate_fields lib fs d ident (TaskRunFields i src props) =
     failure (TaskRun_validate (lib_json_loads lib) (lib_validate_schema lib)
       \<lparr>run_input = i, run_source = src, run_source_properties = props,
        run_parent = resolve_task fs d\<rparr>)"
| "validate_fields lib fs d ident (TaskOutputFields out src props rt fixed) =
     (case (case rt of None \<Rightarrow> None | Some r \<Rightarrow> failure (validate_rating r)) of
        Some e \<Rightarrow> Some e
      | None \<Rightarrow>
         failure (TaskOutput_validate (lib_json_loads lib) (lib_validate_schema lib)
           (\<lambda>task. requirements_at fs (parent_dir (parent_dir d)))
           \<lparr>out_output = out, out_source = src, out_source_properties = props,
            out_rating = rt, out_fixed_output = fixed, out_parent = resolve_run fs d\<rparr>))"

text \<open>
  Modelled from the spec: \<open>save\<close> assigns \<open>id\<close> and \<open>created_at\<close> if unset, runs all
  validators and refuses to write when one fails, leaving the disk as it was, and otherwise
  writes the entity to the canonical file of its directory (section 4.3). \<open>new_id\<close> is the
  identifier the generator would give and \<open>now\<close> the time of the call.
\<close>

definition save ::
  "'j library \<Rightarrow> ID_TYPE \<Rightarrow> nat \<Rightarrow> disk \<Rightarrow> entity \<Rightarrow> error + disk \<times> entity" where
  "save lib new_id now fs e =
     (let ident = (case ent_id e of Some i \<Rightarrow> i | None \<Rightarrow> new_id);
          created = (case ent_created_at e of Some c \<Rightarrow> c | None \<Rightarrow> now)
      in case entity_dir e ident of
           None \<Rightarrow> Inl IOError
         | Some d \<Rightarrow>
            (case validate_fields lib fs d ident (ent_fields e) of
               Some err \<Rightarrow> Inl err
             | None \<Rightarrow>
                Inr (write_file (file_path d (kind_of (ent_fields e)))
                       \<lparr>doc_id = ident, doc_created_at = created,
                        doc_created_by = ent_created_by e, doc_fields = ent_fields e\<rparr> fs,
                     e\<lparr>ent_id := Some ident, ent_dir := Some d,
                       ent_created_at := Some created\<rparr>)))"

text \<open>
  Modelled from the spec: \<open>load\<close> reads one file, fails with \<open>NotFoundError\<close> if it is
  missing and with \<open>ParseError\<close> if it is not an entity of the type asked for, validates
  the content again and returns the entity, located at the path it was read from
  (section 4.3).
\<close>

definition load :: "'j library \<Rightarrow> kind \<Rightarrow> disk \<Rightarrow> path \<Rightarrow> error + entity" where
  "load lib k fs p =
     (case map_of fs p of
        None \<Rightarrow> Inl NotFoundError
      | Some doc \<Rightarrow>
         if kind_of (doc_fields doc) \<noteq> k \<or> p = [] \<or> last p \<noteq> base_filename k
         then Inl ParseError
         else
           (case validate_fields lib fs (butlast p) (doc_id doc) (doc_fields doc) of
              Some err \<Rightarrow> Inl err
            | None \<Rightarrow>
               Inr \<lparr>ent_id = Some (doc_id doc), ent_dir = Some (butlast p),
                    ent_parent_dir = None, ent_created_at = Some (doc_created_at doc),
                    ent_created_by = doc_created_by doc, ent_fields = doc_fields doc\<rparr>))"

text \<open>Modelled from the spec: the persisted fields of an entity (sections 3 and 6).\<close>

definition persisted :: "entity \<Rightarrow> ID_TYPE option \<times> nat option \<times> string option \<times> fields" where
  "persisted e = (ent_id e, ent_created_at e, ent_created_by e, ent_fields e)"

text \<open>
  The specification's wording of a filename-safe name: between 1 and 120 characters, all of
  them letters, digits, space, underscore or hyphen.
\<close>

definition spec_name_chars :: "char set" where
  "spec_name_chars = set ''ABCDEFGHIJKLMNOPQRSTUVWXYZabcdefghijklmnopqrstuvwxyz0123456789 _-''"

definition spec_name_ok :: "string \<Rightarrow> bool" where
  "spec_name_ok s = (1 \<le> length s \<and> length s \<le> 120 \<and> set s \<subseteq> spec_name_chars)"

text \<open>
  The specification's wording of the source-properties rule: every key required for the
  source type is present with a non-empty value.
\<close>

definition spec_required_present :: "DataSourceType \<Rightarrow> (string \<rightharpoonup> string) \<Rightarrow> bool" where
  "spec_required_present src props =
     (\<forall>k \<in> set (required_keys src). \<exists>v. props k = Some v \<and> v \<noteq> [])"

subsection \<open>Fixtures of the tests\<close>

text \<open>
  The entities that \<^verbatim>\<open>test_example_models.py\<close> builds, used to run the validators on
  concrete inputs. \<open>fixture_json_loads\<close> and \<open>fixture_validate_schema\<close> stand for the two
  library functions on the instances of the tests: an object with a \<open>name\<close> and an \<open>age\<close>
  is accepted when the name is a string and the age an integer.
\<close>

datatype json_value = JString string | JInteger int

definition fixture_schema :: string where
  \<open>fixture_schema = ''{"type": "object", "properties": {"name": {"type": "string"}, "age": {"type": "integer"}}, "required": ["name", "age"]}''\<close>

definition fixture_valid_text :: string where
  \<open>fixture_valid_text = ''{"name": "John Doe", "age": 30}''\<close>

definition fixture_invalid_text :: string where
  \<open>fixture_invalid_text = ''{"name": "John Doe", "age": "thirty"}''\<close>

definition fixture_json_loads :: "string \<Rightarrow> (string \<times> json_value) list option" where
  "fixture_json_loads =
     [fixture_valid_text \<mapsto> [(''name'', JString ''John Doe''), (''age'', JInteger 30)],
      fixture_invalid_text \<mapsto> [(''name'', JString ''John Doe''), (''age'', JString ''thirty'')]]"

definition fixture_validate_schema :: "(string \<times> json_value) list \<Rightarrow> string \<Rightarrow> string option" where
  "fixture_validate_schema instance schema =
     (case (map_of instance ''name'', map_of instance ''age'') of
        (Some (JString _), Some (JInteger _)) \<Rightarrow> None
      | _ \<Rightarrow> Some ''instance does not match the schema'')"

definition fixture_task :: Task where
  "fixture_task =
     \<lparr>task_name = ''Test Task'', task_description = [], task_priority = p2,
      task_determinism = flexible, task_instruction = ''test instruction'',
      output_json_schema = Some fixture_schema, input_json_schema = Some fixture_schema\<rparr>"

definition fixture_requirements :: "Task \<Rightarrow> TaskRequirement list" where
  "fixture_requirements task =
     [\<lparr>req_id = ''id_req1'', req_name = ''Requirement 1'', req_description = [],
       req_instruction = ''Requirement 1 instruction'', req_priority = p2\<rparr>,
      \<lparr>req_id = ''id_req2'', req_name = ''Requirement 2'', req_description = [],
       req_instruction = ''Requirement 2 instruction'', req_priority = p2\<rparr>]"

definition fixture_run :: "string \<Rightarrow> TaskRun" where
  "fixture_run txt =
     \<lparr>run_input = txt, run_source = human, run_source_properties = Map.empty,
      run_parent = IsInstance fixture_task\<rparr>"

definition fixture_output :: "string \<Rightarrow> TaskOutputRating option \<Rightarrow> TaskRun parent_ref \<Rightarrow> TaskOutput" where
  "fixture_output txt rating parent =
     \<lparr>out_output = txt, out_source = human, out_source_properties = [''creator'' \<mapsto> ''john_doe''],
      out_rating = rating, out_fixed_output = None, out_parent = parent\<rparr>"

definition fixture_plain_task :: Task where
  "fixture_plain_task =
     \<lparr>task_name = ''Test Task'', task_description = [], task_priority = p2,
      task_determinism = flexible, task_instruction = ''test instruction'',
      output_json_schema = None, input_json_schema = None\<rparr>"

definition fixture_five_star :: "(ID_TYPE \<times> pyfloat) list \<Rightarrow> TaskOutputRating" where
  "fixture_five_star ratings =
     \<lparr>rating_type = five_star, rating_rating = Finite 4, rating_requirement_ratings = ratings\<rparr>"

text \<open>
  A project on disk as \<^verbatim>\<open>test_structured_output_workflow\<close> leaves it before it saves
  an output: the project, a task with schemas, one requirement and one run.
\<close>

definition fixture_library :: "(string \<times> json_value) list library" where
  "fixture_library =
     \<lparr>lib_json_loads = fixture_json_loads, lib_validate_schema = fixture_validate_schema,
      lib_schema_error = Map.empty\<rparr>"

definition fixture_disk :: disk where
  "fixture_disk =
     [([''proj'', ''project.json''],
       \<lparr>doc_id = ''proj'', doc_created_at = 1, doc_created_by = None,
        doc_fields = ProjectFields \<lparr>project_name = ''Test Project'', project_description = []\<rparr>\<rparr>),
      ([''proj'', ''tasks'', ''t1'', ''task.json''],
       \<lparr>doc_id = ''t1'', doc_created_at = 2, doc_created_by = None,
        doc_fields = TaskFields fixture_task\<rparr>),
      ([''proj'', ''tasks'', ''t1'', ''requirements'', ''id_req1'', ''task_requirement.json''],
       \<lparr>doc_id = ''id_req1'', doc_created_at = 3, doc_created_by = None,
        doc_fields = TaskRequirementFields ''Req1'' [] ''Name must be capitalized'' p2\<rparr>),
      ([''proj'', ''tasks'', ''t1'', ''runs'', ''r1'', ''task_run.json''],
       \<lparr>doc_id = ''r1'', doc_created_at = 4, doc_created_by = None,
        doc_fields = TaskRunFields fixture_valid_text human Map.empty\<rparr>)]"

definition fixture_output_fields :: fields where
  "fixture_output_fields =
     TaskOutputFields fixture_valid_text human [''creator'' \<mapsto> ''john_doe'']
       (Some (fixture_five_star [(''id_req1'', Finite 5)])) None"

definition fixture_new_output :: entity where
  "fixture_new_output =
     \<lparr>ent_id = None, ent_dir = None,
      ent_parent_dir = Some [''proj'', ''tasks'', ''t1'', ''runs'', ''r1''],
      ent_created_at = None, ent_created_by = None, ent_fields = fixture_output_fields\<rparr>"

definition fixture_output_path :: path where
  "fixture_output_path =
     [''proj'', ''tasks'', ''t1'', ''runs'', ''r1'', ''outputs'', ''o1'', ''task_output.json'']"

definition fixture_output_document :: document where
  "fixture_output_document =
     \<lparr>doc_id = ''o1'', doc_created_at = 5, doc_created_by = None,
      doc_fields = fixture_output_fields\<rparr>"

section \<open>Five-star and custom ratings\<close>

lemma validate_five_star_iff:
  "validate_five_star v nm = Inr () \<longleftrightarrow> spec_five_star v"
proof (cases v)
  case (Finite r)
  show ?thesis
  proof
    assume ok: "validate_five_star v nm = Inr ()"
    from ok Finite have int: "of_int \<lfloor>r\<rfloor> = r" and lo: "\<not> r < 1" and hi: "\<not> 5 < r"
      by (auto simp: validate_five_star_def split: if_splits)
    from lo int have "1 \<le> \<lfloor>r\<rfloor>" by linarith
    moreover from hi int have "\<lfloor>r\<rfloor> \<le> 5" by linarith
    moreover have "v = Finite (of_int \<lfloor>r\<rfloor>)" by (simp only: Finite int)
    ultimately show "spec_five_star v"
      unfolding spec_five_star_def by blast
  next
    assume "spec_five_star v"
    then obtain n :: int where n: "1 \<le> n" "n \<le> 5" "v = Finite (of_int n)"
      unfolding spec_five_star_def by blast
    then show "validate_five_star v nm = Inr ()"
      by (simp add: validate_five_star_def)
  qed
qed (simp_all add: validate_five_star_def spec_five_star_def)

lemma validate_five_star_cases:
  "validate_five_star v nm = Inr () \<or> (\<exists>e. validate_five_star v nm = Inl e)"
  by (simp add: validate_five_star_def)

lemma validate_requirement_ratings_iff:
  "validate_requirement_ratings items = Inr () \<longleftrightarrow> (\<forall>(k, v) \<in> set items. spec_five_star v)"
proof (induction items)
  case Nil
  show ?case by simp
next
  case (Cons kv items)
  obtain k v where kv: "kv = (k, v)" by (cases kv)
  show ?case
    using Cons.IH validate_five_star_iff [of v "''requirement rating for '' @ k"]
    by (auto simp: kv split: sum.splits)
qed

text \<open>
  C2. For a rating of type five_star, \<open>validate_rating\<close> succeeds exactly when the overall
  rating is a whole number between 1 and 5 and so is every value of
  \<open>requirement_ratings\<close>; in every other case it returns an error.
\<close>

theorem validate_rating_five_star:
  assumes "rating_type r = five_star"
  shows "(validate_rating r = Inr r \<longleftrightarrow>
            spec_five_star (rating_rating r) \<and>
            (\<forall>(k, v) \<in> set (rating_requirement_ratings r). spec_five_star v))
       \<and> (validate_rating r \<noteq> Inr r \<longrightarrow> (\<exists>e. validate_rating r = Inl e))"
proof -
  have "validate_rating r = Inr r \<longleftrightarrow>
          validate_five_star (rating_rating r) ''overall rating'' = Inr () \<and>
          validate_requirement_ratings (rating_requirement_ratings r) = Inr ()"
    using assms by (auto simp: validate_rating_def split: sum.splits)
  moreover have "validate_rating r \<noteq> Inr r \<longrightarrow> (\<exists>e. validate_rating r = Inl e)"
    by (auto simp: validate_rating_def split: sum.splits)
  ultimately show ?thesis
    by (simp add: validate_five_star_iff validate_requirement_ratings_iff)
qed

theorem validate_rating_five_star_witness:
  "validate_rating \<lparr>rating_type = five_star, rating_rating = Finite 4,
       rating_requirement_ratings = [(''req1'', Finite 5), (''req2'', Finite 4)]\<rparr>
     = Inr \<lparr>rating_type = five_star, rating_rating = Finite 4,
       rating_requirement_ratings = [(''req1'', Finite 5), (''req2'', Finite 4)]\<rparr>
   \<and> (\<exists>e. validate_rating \<lparr>rating_type = five_star, rating_rating = Finite 4,
       rating_requirement_ratings = [(''req1'', Finite 6)]\<rparr> = Inl e)"
proof -
  have four: "spec_five_star (Finite 4)"
    unfolding spec_five_star_def by (intro exI [of _ 4]) simp
  have five: "spec_five_star (Finite 5)"
    unfolding spec_five_star_def by (intro exI [of _ 5]) simp
  have six: "\<not> spec_five_star (Finite 6)"
    unfolding spec_five_star_def by auto
  show ?thesis
    using four five six
      validate_rating_five_star [of "\<lparr>rating_type = five_star, rating_rating = Finite 4,
        rating_requirement_ratings = [(''req1'', Finite 5), (''req2'', Finite 4)]\<rparr>"]
      validate_rating_five_star [of "\<lparr>rating_type = five_star, rating_rating = Finite 4,
        rating_requirement_ratings = [(''req1'', Finite 6)]\<rparr>"]
    by simp
qed

text \<open>
  C9. For a rating of type custom, \<open>validate_rating\<close> returns the rating unchanged whatever
  the overall rating and the requirement ratings are: the whole-number and range checks
  are made for type five_star only.
\<close>

theorem validate_rating_custom:
  "rating_type r = custom \<Longrightarrow> validate_rating r = Inr r"
  by (simp add: validate_rating_def)

theorem validate_rating_custom_witness:
  "validate_rating \<lparr>rating_type = custom, rating_rating = Finite (- 5 / 2),
       rating_requirement_ratings = [(''req1'', Finite 100), (''req2'', NaN)]\<rparr>
     = Inr \<lparr>rating_type = custom, rating_rating = Finite (- 5 / 2),
       rating_requirement_ratings = [(''req1'', Finite 100), (''req2'', NaN)]\<rparr>"
  using validate_rating_custom [of "\<lparr>rating_type = custom, rating_rating = Finite (- 5 / 2),
       rating_requirement_ratings = [(''req1'', Finite 100), (''req2'', NaN)]\<rparr>"]
  by simp

section \<open>Filename-safe names\<close>

lemma in_range_image:
  "in_range lo hi c \<longleftrightarrow> c \<in> set (map char_of [of_char lo ..< Suc (of_char hi) :: nat])"
proof
  assume "in_range lo hi c"
  then have "(of_char c :: nat) \<in> set [of_char lo ..< Suc (of_char hi)]"
    by (simp add: in_range_def less_Suc_eq_le del: upt_Suc)
  then have "char_of (of_char c :: nat) \<in> char_of ` set [of_char lo ..< Suc (of_char hi) :: nat]"
    by (rule imageI)
  then show "c \<in> set (map char_of [of_char lo ..< Suc (of_char hi) :: nat])" by simp
next
  assume "c \<in> set (map char_of [of_char lo ..< Suc (of_char hi) :: nat])"
  then obtain n :: nat where n: "of_char lo \<le> n" "n \<le> of_char hi" "c = char_of n"
    by (auto simp del: upt_Suc)
  have "n < 256"
    by (rule le_less_trans [OF n(2) nat_of_char_less_256])
  then have "of_char (char_of n :: char) = n" by simp
  with n show "in_range lo hi c" by (simp add: in_range_def)
qed

lemma upper_chars:
  "map char_of [of_char CHR ''A'' ..< Suc (of_char CHR ''Z'') :: nat] = ''ABCDEFGHIJKLMNOPQRSTUVWXYZ''"
  by code_simp

lemma lower_chars:
  "map char_of [of_char CHR ''a'' ..< Suc (of_char CHR ''z'') :: nat] = ''abcdefghijklmnopqrstuvwxyz''"
  by code_simp

lemma digit_chars:
  "map char_of [of_char CHR ''0'' ..< Suc (of_char CHR ''9'') :: nat] = ''0123456789''"
  by code_simp

lemma name_class_iff: "name_class c \<longleftrightarrow> c \<in> spec_name_chars"
proof -
  have "''ABCDEFGHIJKLMNOPQRSTUVWXYZabcdefghijklmnopqrstuvwxyz0123456789 _-'' =
      ''ABCDEFGHIJKLMNOPQRSTUVWXYZ'' @ ''abcdefghijklmnopqrstuvwxyz'' @ ''0123456789'' @ '' _-''"
    by simp
  then have "spec_name_chars =
      set ''ABCDEFGHIJKLMNOPQRSTUVWXYZ'' \<union> set ''abcdefghijklmnopqrstuvwxyz''
      \<union> set ''0123456789'' \<union> set '' _-''"
    unfolding spec_name_chars_def by (simp only: set_append Un_assoc)
  moreover have "c \<in> set '' _-'' \<longleftrightarrow> c = CHR '' '' \<or> c = CHR ''_'' \<or> c = CHR ''-''"
    by auto
  ultimately show ?thesis
    unfolding name_class_def in_range_image upper_chars lower_chars digit_chars by blast
qed

lemma match_plus_iff: "match_plus cls s \<longleftrightarrow> s \<noteq> [] \<and> (\<forall>c \<in> set s. cls c)"
  by (induction cls s rule: match_plus.induct) auto

lemma NAME_FIELD_iff: "NAME_FIELD v = Inr v \<longleftrightarrow> spec_name_ok v"
  by (auto simp: NAME_FIELD_def NAME_REGEX_def match_plus_iff name_class_iff spec_name_ok_def
      Suc_le_eq)

lemma NAME_FIELD_cases: "NAME_FIELD v = Inr v \<or> (\<exists>e. NAME_FIELD v = Inl e)"
  by (simp add: NAME_FIELD_def)

lemma NAME_FIELD_Inr: "NAME_FIELD v = Inr w \<Longrightarrow> spec_name_ok v"
  using NAME_FIELD_iff [of v] by (auto simp: NAME_FIELD_def split: if_splits)

lemma Project_validate_iff: "Project_validate p = Inr p \<longleftrightarrow> spec_name_ok (project_name p)"
  using NAME_FIELD_Inr [of "project_name p"] NAME_FIELD_iff [of "project_name p"]
  by (auto simp: Project_validate_def split: sum.splits)

lemma Task_validate_name: "Task_validate se t = Inr t \<Longrightarrow> spec_name_ok (task_name t)"
  using NAME_FIELD_Inr [of "task_name t"]
  by (auto simp: Task_validate_def split: sum.splits)

lemma TaskRequirement_validate_name:
  "TaskRequirement_validate q = Inr q \<Longrightarrow> spec_name_ok (req_name q)"
  using NAME_FIELD_Inr [of "req_name q"]
  by (auto simp: TaskRequirement_validate_def split: sum.splits)

lemma Project_validate_cases: "Project_validate p = Inr p \<or> (\<exists>e. Project_validate p = Inl e)"
  by (auto simp: Project_validate_def split: sum.splits)

lemma Task_validate_cases: "Task_validate se t = Inr t \<or> (\<exists>e. Task_validate se t = Inl e)"
  by (auto simp: Task_validate_def split: sum.splits)

lemma TaskRequirement_validate_cases:
  "TaskRequirement_validate q = Inr q \<or> (\<exists>e. TaskRequirement_validate q = Inl e)"
  by (auto simp: TaskRequirement_validate_def split: sum.splits)

text \<open>
  C7. The validation of a Project, a Task or a TaskRequirement succeeds only if the name
  has between 1 and 120 characters, all of them from \<open>[A-Za-z0-9 _-]\<close>; with any other
  name the validation returns an error. For a Project, whose only constrained field is the
  name, the condition is also sufficient.
\<close>

theorem names_filename_safe:
  "(Project_validate p = Inr p \<longleftrightarrow> spec_name_ok (project_name p))
   \<and> (Task_validate se t = Inr t \<longrightarrow> spec_name_ok (task_name t))
   \<and> (TaskRequirement_validate q = Inr q \<longrightarrow> spec_name_ok (req_name q))
   \<and> (\<not> spec_name_ok (project_name p) \<longrightarrow> (\<exists>e. Project_validate p = Inl e))
   \<and> (\<not> spec_name_ok (task_name t) \<longrightarrow> (\<exists>e. Task_validate se t = Inl e))
   \<and> (\<not> spec_name_ok (req_name q) \<longrightarrow> (\<exists>e. TaskRequirement_validate q = Inl e))"
  using Project_validate_iff [of p] Task_validate_name [of se t]
    TaskRequirement_validate_name [of q] Project_validate_cases [of p]
    Task_validate_cases [of se t] TaskRequirement_validate_cases [of q]
  by blast

theorem names_filename_safe_witness:
  "Project_validate \<lparr>project_name = ''Test Project'', project_description = []\<rparr>
     = Inr \<lparr>project_name = ''Test Project'', project_description = []\<rparr>
   \<and> (\<exists>e. Project_validate \<lparr>project_name = ''a/b'', project_description = []\<rparr> = Inl e)
   \<and> (\<exists>e. Task_validate Map.empty (fixture_task\<lparr>task_name := []\<rparr>) = Inl e)
   \<and> (\<exists>e. TaskRequirement_validate
          \<lparr>req_id = ''id_req1'', req_name = ''Requirement: 1'', req_description = [],
           req_instruction = ''Requirement 1 instruction'', req_priority = p2\<rparr> = Inl e)"
proof -
  have ok: "spec_name_ok ''Test Project''"
    by (simp add: spec_name_ok_def spec_name_chars_def)
  have bad1: "\<not> spec_name_ok ''a/b''"
    by (simp add: spec_name_ok_def spec_name_chars_def)
  have bad2: "\<not> spec_name_ok []"
    by (simp add: spec_name_ok_def)
  have bad3: "\<not> spec_name_ok ''Requirement: 1''"
    by (simp add: spec_name_ok_def spec_name_chars_def)
  show ?thesis
    using ok bad1 bad2 bad3
      names_filename_safe [of "\<lparr>project_name = ''Test Project'', project_description = []\<rparr>"
        Map.empty "fixture_task\<lparr>task_name := []\<rparr>"
        "\<lparr>req_id = ''id_req1'', req_name = ''Requirement: 1'', req_description = [],
           req_instruction = ''Requirement 1 instruction'', req_priority = p2\<rparr>"]
      names_filename_safe [of "\<lparr>project_name = ''a/b'', project_description = []\<rparr>"
        Map.empty "fixture_task\<lparr>task_name := []\<rparr>"
        "\<lparr>req_id = ''id_req1'', req_name = ''Requirement: 1'', req_description = [],
           req_instruction = ''Requirement 1 instruction'', req_priority = p2\<rparr>"]
    by simp
qed

section \<open>Schema conformance of inputs and outputs\<close>

lemma validate_input_format_cases:
  "validate_input_format jl vs r = Inr r \<or> (\<exists>e. validate_input_format jl vs r = Inl e)"
  by (auto simp: validate_input_format_def split: parent_ref.splits option.splits)

lemma validate_input_format_iff:
  "run_parent r = IsInstance t \<Longrightarrow> input_json_schema t = Some s \<Longrightarrow>
     validate_input_format jl vs r = Inr r \<longleftrightarrow> spec_conforms jl vs s (run_input r)"
  by (auto simp: validate_input_format_def spec_conforms_def split: option.splits)

lemma validate_input_format_no_schema:
  "run_parent r = IsInstance t \<Longrightarrow> input_json_schema t = None \<Longrightarrow>
     validate_input_format jl vs r = Inr r"
  by (simp add: validate_input_format_def)

lemma task_for_validation_attached:
  "out_parent out = IsInstance r \<Longrightarrow> run_parent r = IsInstance t \<Longrightarrow>
     task_for_validation out = Inr (Some t)"
  by (simp add: task_for_validation_def parent_task_run_def)

lemma task_for_validation_detached:
  "out_parent out = NoParent \<or> (\<exists>r. out_parent out = IsInstance r \<and> run_parent r = NoParent) \<Longrightarrow>
     task_for_validation out = Inr None"
  by (auto simp: task_for_validation_def parent_task_run_def)

lemma validate_output_format_cases:
  "validate_output_format jl vs out = Inr out \<or> (\<exists>e. validate_output_format jl vs out = Inl e)"
  by (auto simp: validate_output_format_def split: sum.splits option.splits)

lemma validate_output_format_iff:
  "task_for_validation out = Inr (Some t) \<Longrightarrow> output_json_schema t = Some s \<Longrightarrow>
     validate_output_format jl vs out = Inr out \<longleftrightarrow> spec_conforms jl vs s (out_output out)"
  by (auto simp: validate_output_format_def spec_conforms_def split: option.splits)

lemma validate_output_format_no_schema:
  "task_for_validation out = Inr (Some t) \<Longrightarrow> output_json_schema t = None \<Longrightarrow>
     validate_output_format jl vs out = Inr out"
  by (simp add: validate_output_format_def)

lemma validate_output_format_deferred:
  "task_for_validation out = Inr None \<Longrightarrow> validate_output_format jl vs out = Inr out"
  by (simp add: validate_output_format_def)

lemma validate_requirement_rating_keys_cases:
  "validate_requirement_rating_keys reqs out = Inr out \<or>
   (\<exists>e. validate_requirement_rating_keys reqs out = Inl e)"
  by (auto simp: validate_requirement_rating_keys_def split: sum.splits option.splits)

lemma validate_requirement_rating_keys_deferred:
  "task_for_validation out = Inr None \<Longrightarrow> validate_requirement_rating_keys reqs out = Inr out"
  by (simp add: validate_requirement_rating_keys_def split: option.splits)

lemma validate_source_properties_cases:
  "validate_source_properties out = Inr out \<or> (\<exists>e. validate_source_properties out = Inl e)"
  by (auto simp: validate_source_properties_def validate_source_properties_in_def
      split: sum.splits)

lemma TaskOutput_validate_iff:
  "TaskOutput_validate jl vs reqs out = Inr out \<longleftrightarrow>
     validate_output_format jl vs out = Inr out \<and>
     validate_requirement_rating_keys reqs out = Inr out \<and>
     validate_source_properties out = Inr out"
  using validate_output_format_cases [of jl vs out]
    validate_requirement_rating_keys_cases [of reqs out]
  by (auto simp: TaskOutput_validate_def split: sum.splits)

lemma TaskOutput_validate_cases:
  "TaskOutput_validate jl vs reqs out = Inr out \<or> (\<exists>e. TaskOutput_validate jl vs reqs out = Inl e)"
  using validate_output_format_cases [of jl vs out]
    validate_requirement_rating_keys_cases [of reqs out]
    validate_source_properties_cases [of out]
  by (auto simp: TaskOutput_validate_def split: sum.splits)

text \<open>
  C1. For a TaskRun whose parent is a Task that declares \<open>input_json_schema\<close>, the
  validation succeeds exactly when the input parses as JSON and validates against the
  schema, and returns an error otherwise. For a TaskOutput whose parent chain resolves to a
  Task that declares \<open>output_json_schema\<close>, the schema validator succeeds exactly when the
  output parses and validates, and the whole validation of the TaskOutput succeeds exactly
  when, besides, its two other validators do. Where the schema is absent the text is not
  constrained.
\<close>

theorem schema_conformance:
  "(run_parent r = IsInstance t \<and> input_json_schema t = Some s \<longrightarrow>
      (TaskRun_validate jl vs r = Inr r \<longleftrightarrow> spec_conforms jl vs s (run_input r)) \<and>
      (\<not> spec_conforms jl vs s (run_input r) \<longrightarrow> (\<exists>e. TaskRun_validate jl vs r = Inl e)))
   \<and> (run_parent r = IsInstance t \<and> input_json_schema t = None \<longrightarrow>
      TaskRun_validate jl vs r = Inr r)
   \<and> (out_parent out = IsInstance r' \<and> run_parent r' = IsInstance t' \<and>
       output_json_schema t' = Some s' \<longrightarrow>
      (validate_output_format jl vs out = Inr out \<longleftrightarrow> spec_conforms jl vs s' (out_output out)) \<and>
      (\<not> spec_conforms jl vs s' (out_output out) \<longrightarrow>
         (\<exists>e. validate_output_format jl vs out = Inl e) \<and>
         (\<exists>e. TaskOutput_validate jl vs reqs out = Inl e)) \<and>
      (TaskOutput_validate jl vs reqs out = Inr out \<longleftrightarrow>
         spec_conforms jl vs s' (out_output out) \<and>
         validate_requirement_rating_keys reqs out = Inr out \<and>
         validate_source_properties out = Inr out))
   \<and> (out_parent out = IsInstance r' \<and> run_parent r' = IsInstance t' \<and>
       output_json_schema t' = None \<longrightarrow>
      validate_output_format jl vs out = Inr out)"
proof -
  have run_some: "TaskRun_validate jl vs r = Inr r \<longleftrightarrow> spec_conforms jl vs s (run_input r)"
    if "run_parent r = IsInstance t" "input_json_schema t = Some s"
    using that validate_input_format_iff [of r t s jl vs] by (simp add: TaskRun_validate_def)
  have run_fail: "\<exists>e. TaskRun_validate jl vs r = Inl e"
    if "run_parent r = IsInstance t" "input_json_schema t = Some s"
      "\<not> spec_conforms jl vs s (run_input r)"
    using that run_some validate_input_format_cases [of jl vs r]
    by (auto simp: TaskRun_validate_def)
  have run_none: "TaskRun_validate jl vs r = Inr r"
    if "run_parent r = IsInstance t" "input_json_schema t = None"
    using that validate_input_format_no_schema [of r t jl vs] by (simp add: TaskRun_validate_def)
  have out_some:
    "validate_output_format jl vs out = Inr out \<longleftrightarrow> spec_conforms jl vs s' (out_output out)"
    if "out_parent out = IsInstance r'" "run_parent r' = IsInstance t'"
      "output_json_schema t' = Some s'"
    using that task_for_validation_attached [of out r' t']
      validate_output_format_iff [of out t' s' jl vs] by simp
  have out_fail: "\<exists>e. validate_output_format jl vs out = Inl e"
    if "out_parent out = IsInstance r'" "run_parent r' = IsInstance t'"
      "output_json_schema t' = Some s'" "\<not> spec_conforms jl vs s' (out_output out)"
    using that out_some validate_output_format_cases [of jl vs out] by auto
  have all_fail: "\<exists>e. TaskOutput_validate jl vs reqs out = Inl e"
    if "out_parent out = IsInstance r'" "run_parent r' = IsInstance t'"
      "output_json_schema t' = Some s'" "\<not> spec_conforms jl vs s' (out_output out)"
    using that out_some TaskOutput_validate_iff [of jl vs reqs out]
      TaskOutput_validate_cases [of jl vs reqs out] by auto
  have out_none: "validate_output_format jl vs out = Inr out"
    if "out_parent out = IsInstance r'" "run_parent r' = IsInstance t'"
      "output_json_schema t' = None"
    using that task_for_validation_attached [of out r' t']
      validate_output_format_no_schema [of out t' jl vs] by simp
  show ?thesis
    using run_some run_fail run_none out_some out_fail all_fail out_none
      TaskOutput_validate_iff [of jl vs reqs out]
    by blast
qed

theorem schema_conformance_witness:
  "TaskRun_validate fixture_json_loads fixture_validate_schema (fixture_run fixture_valid_text)
     = Inr (fixture_run fixture_valid_text)
   \<and> (\<exists>e. TaskRun_validate fixture_json_loads fixture_validate_schema
          (fixture_run fixture_invalid_text) = Inl e)
   \<and> (\<exists>e. TaskRun_validate fixture_json_loads fixture_validate_schema
          (fixture_run ''Test input'') = Inl e)
   \<and> validate_output_format fixture_json_loads fixture_validate_schema
         (fixture_output fixture_valid_text None (IsInstance (fixture_run fixture_valid_text)))
       = Inr (fixture_output fixture_valid_text None (IsInstance (fixture_run fixture_valid_text)))
   \<and> (\<exists>e. TaskOutput_validate fixture_json_loads fixture_validate_schema fixture_requirements
         (fixture_output fixture_invalid_text None (IsInstance (fixture_run fixture_valid_text)))
       = Inl e)"
proof -
  have good: "spec_conforms fixture_json_loads fixture_validate_schema fixture_schema
      fixture_valid_text"
    by (simp add: spec_conforms_def fixture_json_loads_def fixture_validate_schema_def
        fixture_valid_text_def fixture_invalid_text_def)
  have bad: "\<not> spec_conforms fixture_json_loads fixture_validate_schema fixture_schema
      fixture_invalid_text"
    by (simp add: spec_conforms_def fixture_json_loads_def fixture_validate_schema_def
        fixture_valid_text_def fixture_invalid_text_def)
  have plain: "\<not> spec_conforms fixture_json_loads fixture_validate_schema fixture_schema
      ''Test input''"
    by (simp add: spec_conforms_def fixture_json_loads_def fixture_validate_schema_def
        fixture_valid_text_def fixture_invalid_text_def)
  have parent: "run_parent (fixture_run tx) = IsInstance fixture_task" for tx
    by (simp add: fixture_run_def)
  have input: "run_input (fixture_run tx) = tx" for tx
    by (simp add: fixture_run_def)
  have schema: "input_json_schema fixture_task = Some fixture_schema"
      "output_json_schema fixture_task = Some fixture_schema"
    by (simp_all add: fixture_task_def)
  have out: "out_parent (fixture_output tx rt p) = p" "out_output (fixture_output tx rt p) = tx"
    for tx rt p
    by (simp_all add: fixture_output_def)
  show ?thesis
    using good bad plain
      schema_conformance [of "fixture_run fixture_valid_text" fixture_task fixture_schema
        fixture_json_loads fixture_validate_schema
        "fixture_output fixture_valid_text None (IsInstance (fixture_run fixture_valid_text))"
        "fixture_run fixture_valid_text" fixture_task fixture_schema fixture_requirements]
      schema_conformance [of "fixture_run fixture_invalid_text" fixture_task fixture_schema
        fixture_json_loads fixture_validate_schema
        "fixture_output fixture_invalid_text None (IsInstance (fixture_run fixture_valid_text))"
        "fixture_run fixture_valid_text" fixture_task fixture_schema fixture_requirements]
      schema_conformance [of "fixture_run ''Test input''" fixture_task fixture_schema
        fixture_json_loads fixture_validate_schema
        "fixture_output fixture_invalid_text None (IsInstance (fixture_run fixture_valid_text))"
        "fixture_run fixture_valid_text" fixture_task fixture_schema fixture_requirements]
    by (simp add: parent input schema out)
qed

section \<open>Requirement rating keys\<close>

lemma check_rating_keys_Inr: "check_rating_keys keys ids = Inr () \<longleftrightarrow> set keys \<subseteq> set ids"
  by (induction keys) auto

lemma check_rating_keys_Inl:
  "check_rating_keys keys ids = Inl e \<Longrightarrow>
     \<exists>k \<in> set keys. k \<notin> set ids \<and> e = InvalidRequirementId k"
  by (induction keys) (auto split: if_splits)

lemma validate_requirement_rating_keys_attached:
  assumes "out_rating out = Some rt" "rating_requirement_ratings rt \<noteq> []"
    and "task_for_validation out = Inr (Some t)"
  shows "validate_requirement_rating_keys reqs out =
     (case check_rating_keys (map fst (rating_requirement_ratings rt)) (map req_id (reqs t)) of
        Inl e \<Rightarrow> Inl e | Inr _ \<Rightarrow> Inr out)"
  using assms by (simp add: validate_requirement_rating_keys_def)

text \<open>
  C3. For a TaskOutput that has a rating whose \<open>requirement_ratings\<close> contains a key \<open>k\<close>
  and whose parent chain resolves to a Task, the validation of the rating keys, and with it
  the whole validation of the TaskOutput, succeeds only if \<open>k\<close> is the identifier of a
  requirement of that Task; the rating-key validator succeeds exactly when every key is
  one. If \<open>k\<close> names no requirement, the validator returns the error
  \<open>InvalidRequirementId\<close> (the message
  \<^verbatim>\<open>Requirement ID '...' is not a valid requirement ID for this task\<close>) for a key that
  names none, and the whole validation fails: with that same error when the schema
  validator, which runs first, has passed.
\<close>

theorem requirement_rating_keys:
  "out_rating out = Some rt \<and> (k, v) \<in> set (rating_requirement_ratings rt) \<and>
   out_parent out = IsInstance r \<and> run_parent r = IsInstance t \<longrightarrow>
     (validate_requirement_rating_keys reqs out = Inr out \<longleftrightarrow>
        fst ` set (rating_requirement_ratings rt) \<subseteq> req_id ` set (reqs t))
   \<and> (validate_requirement_rating_keys reqs out = Inr out \<longrightarrow> k \<in> req_id ` set (reqs t))
   \<and> (TaskOutput_validate jl vs reqs out = Inr out \<longrightarrow> k \<in> req_id ` set (reqs t))
   \<and> (k \<notin> req_id ` set (reqs t) \<longrightarrow>
        (\<exists>k'. k' \<in> fst ` set (rating_requirement_ratings rt) \<and> k' \<notin> req_id ` set (reqs t) \<and>
           validate_requirement_rating_keys reqs out = Inl (InvalidRequirementId k') \<and>
           (validate_output_format jl vs out = Inr out \<longrightarrow>
              TaskOutput_validate jl vs reqs out = Inl (InvalidRequirementId k')))
      \<and> (\<exists>e. TaskOutput_validate jl vs reqs out = Inl e))"
proof (intro impI, elim conjE)
  assume rt: "out_rating out = Some rt"
    and kv: "(k, v) \<in> set (rating_requirement_ratings rt)"
    and par: "out_parent out = IsInstance r" "run_parent r = IsInstance t"
  let ?keys = "map fst (rating_requirement_ratings rt)"
  let ?ids = "map req_id (reqs t)"
  from kv have nonempty: "rating_requirement_ratings rt \<noteq> []" by auto
  from kv have k_in: "k \<in> set ?keys" by force
  have eq: "validate_requirement_rating_keys reqs out =
      (case check_rating_keys ?keys ?ids of Inl e \<Rightarrow> Inl e | Inr _ \<Rightarrow> Inr out)"
    using validate_requirement_rating_keys_attached [OF rt nonempty]
      task_for_validation_attached [OF par] by simp
  have iff: "validate_requirement_rating_keys reqs out = Inr out \<longleftrightarrow> set ?keys \<subseteq> set ?ids"
    using check_rating_keys_Inr [of ?keys ?ids] by (auto simp: eq split: sum.splits)
  have only_if: "k \<in> set ?ids" if "validate_requirement_rating_keys reqs out = Inr out"
    using that iff k_in by blast
  have all_only_if: "k \<in> set ?ids" if "TaskOutput_validate jl vs reqs out = Inr out"
    using that only_if TaskOutput_validate_iff [of jl vs reqs out] by blast
  have err: "\<exists>k'. k' \<in> set ?keys \<and> k' \<notin> set ?ids \<and>
      validate_requirement_rating_keys reqs out = Inl (InvalidRequirementId k') \<and>
      (validate_output_format jl vs out = Inr out \<longrightarrow>
         TaskOutput_validate jl vs reqs out = Inl (InvalidRequirementId k'))"
    if "k \<notin> set ?ids"
  proof -
    from that k_in have "check_rating_keys ?keys ?ids \<noteq> Inr ()"
      using check_rating_keys_Inr [of ?keys ?ids] by blast
    then obtain e where e: "check_rating_keys ?keys ?ids = Inl e"
      by (cases "check_rating_keys ?keys ?ids") auto
    from check_rating_keys_Inl [OF e] obtain k' where
      k': "k' \<in> set ?keys" "k' \<notin> set ?ids" "e = InvalidRequirementId k'" by blast
    with e have keys: "validate_requirement_rating_keys reqs out = Inl (InvalidRequirementId k')"
      by (simp add: eq)
    then have "TaskOutput_validate jl vs reqs out = Inl (InvalidRequirementId k')"
      if "validate_output_format jl vs out = Inr out"
      using that by (simp add: TaskOutput_validate_def)
    with k' keys show ?thesis by blast
  qed
  have all_err: "\<exists>e. TaskOutput_validate jl vs reqs out = Inl e" if "k \<notin> set ?ids"
    using that all_only_if TaskOutput_validate_cases [of jl vs reqs out] by blast
  show "(validate_requirement_rating_keys reqs out = Inr out \<longleftrightarrow>
        fst ` set (rating_requirement_ratings rt) \<subseteq> req_id ` set (reqs t))
   \<and> (validate_requirement_rating_keys reqs out = Inr out \<longrightarrow> k \<in> req_id ` set (reqs t))
   \<and> (TaskOutput_validate jl vs reqs out = Inr out \<longrightarrow> k \<in> req_id ` set (reqs t))
   \<and> (k \<notin> req_id ` set (reqs t) \<longrightarrow>
        (\<exists>k'. k' \<in> fst ` set (rating_requirement_ratings rt) \<and> k' \<notin> req_id ` set (reqs t) \<and>
           validate_requirement_rating_keys reqs out = Inl (InvalidRequirementId k') \<and>
           (validate_output_format jl vs out = Inr out \<longrightarrow>
              TaskOutput_validate jl vs reqs out = Inl (InvalidRequirementId k')))
      \<and> (\<exists>e. TaskOutput_validate jl vs reqs out = Inl e))"
    using iff only_if all_only_if err all_err by simp
qed

theorem requirement_rating_keys_witness:
  "validate_requirement_rating_keys fixture_requirements
     (fixture_output fixture_valid_text
        (Some (fixture_five_star [(''id_req1'', Finite 5), (''id_req2'', Finite 4)]))
        (IsInstance (fixture_run fixture_valid_text)))
     = Inr (fixture_output fixture_valid_text
        (Some (fixture_five_star [(''id_req1'', Finite 5), (''id_req2'', Finite 4)]))
        (IsInstance (fixture_run fixture_valid_text)))
   \<and> validate_requirement_rating_keys fixture_requirements
       (fixture_output fixture_valid_text (Some (fixture_five_star [(''unknown_id'', Finite 5)]))
          (IsInstance (fixture_run fixture_valid_text)))
     = Inl (InvalidRequirementId ''unknown_id'')
   \<and> TaskOutput_validate fixture_json_loads fixture_validate_schema fixture_requirements
       (fixture_output fixture_valid_text (Some (fixture_five_star [(''unknown_id'', Finite 5)]))
          (IsInstance (fixture_run fixture_valid_text)))
     = Inl (InvalidRequirementId ''unknown_id'')"
proof -
  have parent: "run_parent (fixture_run tx) = IsInstance fixture_task" for tx
    by (simp add: fixture_run_def)
  have out: "out_parent (fixture_output tx rt p) = p" "out_rating (fixture_output tx rt p) = rt"
    for tx rt p
    by (simp_all add: fixture_output_def)
  have ratings: "rating_requirement_ratings (fixture_five_star xs) = xs" for xs
    by (simp add: fixture_five_star_def)
  have ids: "req_id ` set (fixture_requirements fixture_task) = {''id_req1'', ''id_req2''}"
    by (simp add: fixture_requirements_def)
  have fmt: "validate_output_format fixture_json_loads fixture_validate_schema
      (fixture_output fixture_valid_text rt (IsInstance (fixture_run fixture_valid_text)))
    = Inr (fixture_output fixture_valid_text rt (IsInstance (fixture_run fixture_valid_text)))"
    for rt
    by (simp add: validate_output_format_def task_for_validation_def parent_task_run_def
        fixture_output_def fixture_run_def fixture_task_def fixture_json_loads_def
        fixture_validate_schema_def fixture_valid_text_def fixture_invalid_text_def)
  show ?thesis
    using
      requirement_rating_keys [of
        "fixture_output fixture_valid_text
           (Some (fixture_five_star [(''id_req1'', Finite 5), (''id_req2'', Finite 4)]))
           (IsInstance (fixture_run fixture_valid_text))"
        "fixture_five_star [(''id_req1'', Finite 5), (''id_req2'', Finite 4)]"
        "''id_req1''" "Finite 5" "fixture_run fixture_valid_text" fixture_task
        fixture_requirements fixture_json_loads fixture_validate_schema]
      requirement_rating_keys [of
        "fixture_output fixture_valid_text (Some (fixture_five_star [(''unknown_id'', Finite 5)]))
           (IsInstance (fixture_run fixture_valid_text))"
        "fixture_five_star [(''unknown_id'', Finite 5)]"
        "''unknown_id''" "Finite 5" "fixture_run fixture_valid_text" fixture_task
        fixture_requirements fixture_json_loads fixture_validate_schema]
    by (simp add: parent out ratings ids fmt)
qed

section \<open>Source properties\<close>

lemma check_required_keys_Inr:
  "check_required_keys keys props src acc = Inr m \<longleftrightarrow>
     (\<forall>k \<in> set keys. props k \<noteq> Some []) \<and> m = acc @ filter (\<lambda>k. props k = None) keys"
  by (induction keys arbitrary: acc) (auto split: option.splits)

lemma check_required_keys_cases:
  "(\<exists>m. check_required_keys keys props src acc = Inr m) \<or>
   (\<exists>k \<in> set keys. check_required_keys keys props src acc = Inl (SourcePropertyEmpty k src))"
  by (induction keys arbitrary: acc) (auto split: option.splits)

lemma validate_source_properties_in_iff:
  "validate_source_properties_in keys out = Inr out \<longleftrightarrow>
     (\<forall>k \<in> set keys. \<exists>v. out_source_properties out k = Some v \<and> v \<noteq> [])"
proof (cases "check_required_keys keys (out_source_properties out) (out_source out) []")
  case (Inl e)
  then have "\<not> (\<forall>k \<in> set keys. out_source_properties out k \<noteq> Some [])"
    using check_required_keys_Inr [of keys "out_source_properties out" "out_source out" "[]"]
    by auto
  then obtain k where "k \<in> set keys" "out_source_properties out k = Some []"
    by blast
  then have "\<not> (\<forall>k \<in> set keys. \<exists>v. out_source_properties out k = Some v \<and> v \<noteq> [])"
    by force
  with Inl show ?thesis
    by (simp add: validate_source_properties_in_def)
next
  case (Inr m)
  then have m: "\<forall>k \<in> set keys. out_source_properties out k \<noteq> Some []"
      "m = filter (\<lambda>k. out_source_properties out k = None) keys"
    using check_required_keys_Inr [of keys "out_source_properties out" "out_source out" "[]" m]
    by auto
  have empty: "m = [] \<longleftrightarrow> (\<forall>k \<in> set keys. out_source_properties out k \<noteq> None)"
    unfolding m(2) by (simp add: filter_empty_conv)
  have present: "(\<exists>v. x = Some v \<and> v \<noteq> []) \<longleftrightarrow> x \<noteq> Some [] \<and> x \<noteq> None"
    for x :: "string option"
    by (cases x) auto
  have "validate_source_properties_in keys out = Inr out \<longleftrightarrow> m = []"
    using Inr by (simp add: validate_source_properties_in_def)
  with empty m(1) show ?thesis
    by (simp add: present)
qed

text \<open>
  The order in which the required keys are visited decides which error is reported, never
  whether one is.
\<close>

lemma validate_source_properties_in_order:
  "set keys = set keys' \<Longrightarrow>
     validate_source_properties_in keys out = Inr out \<longleftrightarrow>
     validate_source_properties_in keys' out = Inr out"
  by (simp add: validate_source_properties_in_iff)

lemma validate_source_properties_iff:
  "validate_source_properties out = Inr out \<longleftrightarrow>
     spec_required_present (out_source out) (out_source_properties out)"
  by (simp add: validate_source_properties_def validate_source_properties_in_iff
      spec_required_present_def)

lemma TaskOutput_validate_detached:
  "task_for_validation out = Inr None \<Longrightarrow>
     TaskOutput_validate jl vs reqs out = validate_source_properties out"
  by (simp add: TaskOutput_validate_def validate_output_format_deferred
      validate_requirement_rating_keys_deferred)

lemma TaskOutput_validate_source_error:
  "\<not> spec_required_present (out_source out) (out_source_properties out) \<Longrightarrow>
     \<exists>e. TaskOutput_validate jl vs reqs out = Inl e"
  using TaskOutput_validate_iff [of jl vs reqs out] TaskOutput_validate_cases [of jl vs reqs out]
    validate_source_properties_iff [of out]
  by blast

text \<open>
  C5. A TaskOutput with source human and an empty \<open>source_properties\<close> fails with the
  error that lists the missing key \<open>creator\<close>; with \<open>creator\<close> mapped to the empty string
  it fails with the error for an empty value of a required key; in both cases the whole
  validation fails. With source synthetic and \<open>adapter_name\<close>, \<open>model_name\<close>,
  \<open>model_provider\<close> and \<open>prompt_builder_name\<close> all present and non-empty, the
  source-properties validator passes, and so does the whole validation of a TaskOutput
  built without a parent, as the tests build it.
\<close>

theorem source_properties_examples:
  "validate_source_properties (out\<lparr>out_source := human, out_source_properties := Map.empty\<rparr>)
     = Inl (SourcePropertiesMissing [''creator''] human)
   \<and> validate_source_properties
        (out\<lparr>out_source := human, out_source_properties := [''creator'' \<mapsto> []]\<rparr>)
     = Inl (SourcePropertyEmpty ''creator'' human)
   \<and> (\<exists>e. TaskOutput_validate jl vs reqs
          (out\<lparr>out_source := human, out_source_properties := Map.empty\<rparr>) = Inl e)
   \<and> (\<exists>e. TaskOutput_validate jl vs reqs
          (out\<lparr>out_source := human, out_source_properties := [''creator'' \<mapsto> []]\<rparr>) = Inl e)
   \<and> (out_source out = synthetic \<and>
       (\<forall>k \<in> {''adapter_name'', ''model_name'', ''model_provider'', ''prompt_builder_name''}.
          \<exists>v. out_source_properties out k = Some v \<and> v \<noteq> []) \<longrightarrow>
        validate_source_properties out = Inr out \<and>
        (out_parent out = NoParent \<longrightarrow> TaskOutput_validate jl vs reqs out = Inr out))"
proof -
  let ?a = "out\<lparr>out_source := human, out_source_properties := Map.empty\<rparr>"
  let ?b = "out\<lparr>out_source := human, out_source_properties := [''creator'' \<mapsto> []]\<rparr>"
  have a: "validate_source_properties ?a = Inl (SourcePropertiesMissing [''creator''] human)"
    by (simp add: validate_source_properties_def validate_source_properties_in_def)
  have b: "validate_source_properties ?b = Inl (SourcePropertyEmpty ''creator'' human)"
    by (simp add: validate_source_properties_def validate_source_properties_in_def)
  have "\<not> spec_required_present (out_source ?a) (out_source_properties ?a)"
    by (simp add: spec_required_present_def)
  then have a_all: "\<exists>e. TaskOutput_validate jl vs reqs ?a = Inl e"
    by (rule TaskOutput_validate_source_error)
  have "\<not> spec_required_present (out_source ?b) (out_source_properties ?b)"
    by (simp add: spec_required_present_def)
  then have b_all: "\<exists>e. TaskOutput_validate jl vs reqs ?b = Inl e"
    by (rule TaskOutput_validate_source_error)
  have c: "validate_source_properties out = Inr out \<and>
      (out_parent out = NoParent \<longrightarrow> TaskOutput_validate jl vs reqs out = Inr out)"
    if "out_source out = synthetic"
      "\<forall>k \<in> {''adapter_name'', ''model_name'', ''model_provider'', ''prompt_builder_name''}.
          \<exists>v. out_source_properties out k = Some v \<and> v \<noteq> []"
  proof -
    from that have "spec_required_present (out_source out) (out_source_properties out)"
      by (simp add: spec_required_present_def)
    then have ok: "validate_source_properties out = Inr out"
      by (simp add: validate_source_properties_iff)
    moreover have "TaskOutput_validate jl vs reqs out = Inr out" if "out_parent out = NoParent"
      using that ok task_for_validation_detached [of out]
        TaskOutput_validate_detached [of out jl vs reqs] by simp
    ultimately show ?thesis by blast
  qed
  from a b a_all b_all c show ?thesis by blast
qed

theorem source_properties_examples_witness:
  "validate_source_properties
     \<lparr>out_output = ''Test output'', out_source = synthetic,
      out_source_properties = [''adapter_name'' \<mapsto> ''TestAdapter'', ''model_name'' \<mapsto> ''GPT-4'',
        ''model_provider'' \<mapsto> ''OpenAI'', ''prompt_builder_name'' \<mapsto> ''TestPromptBuilder''],
      out_rating = None, out_fixed_output = None, out_parent = NoParent\<rparr>
   = Inr \<lparr>out_output = ''Test output'', out_source = synthetic,
      out_source_properties = [''adapter_name'' \<mapsto> ''TestAdapter'', ''model_name'' \<mapsto> ''GPT-4'',
        ''model_provider'' \<mapsto> ''OpenAI'', ''prompt_builder_name'' \<mapsto> ''TestPromptBuilder''],
      out_rating = None, out_fixed_output = None, out_parent = NoParent\<rparr>
   \<and> TaskOutput_validate fixture_json_loads fixture_validate_schema fixture_requirements
     \<lparr>out_output = ''Test output'', out_source = synthetic,
      out_source_properties = [''adapter_name'' \<mapsto> ''TestAdapter'', ''model_name'' \<mapsto> ''GPT-4'',
        ''model_provider'' \<mapsto> ''OpenAI'', ''prompt_builder_name'' \<mapsto> ''TestPromptBuilder''],
      out_rating = None, out_fixed_output = None, out_parent = NoParent\<rparr>
   = Inr \<lparr>out_output = ''Test output'', out_source = synthetic,
      out_source_properties = [''adapter_name'' \<mapsto> ''TestAdapter'', ''model_name'' \<mapsto> ''GPT-4'',
        ''model_provider'' \<mapsto> ''OpenAI'', ''prompt_builder_name'' \<mapsto> ''TestPromptBuilder''],
      out_rating = None, out_fixed_output = None, out_parent = NoParent\<rparr>"
  using source_properties_examples [of
     "\<lparr>out_output = ''Test output'', out_source = synthetic,
      out_source_properties = [''adapter_name'' \<mapsto> ''TestAdapter'', ''model_name'' \<mapsto> ''GPT-4'',
        ''model_provider'' \<mapsto> ''OpenAI'', ''prompt_builder_name'' \<mapsto> ''TestPromptBuilder''],
      out_rating = None, out_fixed_output = None, out_parent = NoParent\<rparr>"
     fixture_json_loads fixture_validate_schema fixture_requirements]
  by simp

text \<open>
  C4, as the code has it. The validation of a TaskOutput succeeds only if every key required
  for its source type is present in \<open>source_properties\<close> with a non-empty value
  (\<open>creator\<close> for human; \<open>adapter_name\<close>, \<open>model_name\<close>, \<open>model_provider\<close> and
  \<open>prompt_builder_name\<close> for synthetic), and the source-properties validator succeeds
  exactly then. No key is forbidden: two property maps that agree on the required keys are
  accepted or rejected alike. The validation of a TaskRun does not depend on its source or
  its \<open>source_properties\<close>.
\<close>

theorem source_properties_required_keys:
  "(validate_source_properties out = Inr out \<longleftrightarrow>
      spec_required_present (out_source out) (out_source_properties out))
   \<and> (TaskOutput_validate jl vs reqs out = Inr out \<longrightarrow>
      spec_required_present (out_source out) (out_source_properties out))
   \<and> (\<not> spec_required_present (out_source out) (out_source_properties out) \<longrightarrow>
      (\<exists>e. validate_source_properties out = Inl e) \<and>
      (\<exists>e. TaskOutput_validate jl vs reqs out = Inl e))
   \<and> ((\<forall>k \<in> set (required_keys (out_source out)). props' k = out_source_properties out k) \<longrightarrow>
      (validate_source_properties (out\<lparr>out_source_properties := props'\<rparr>)
         = Inr (out\<lparr>out_source_properties := props'\<rparr>) \<longleftrightarrow>
       validate_source_properties out = Inr out))
   \<and> (TaskRun_validate jl vs (r\<lparr>run_source := src, run_source_properties := props\<rparr>)
         = Inr (r\<lparr>run_source := src, run_source_properties := props\<rparr>) \<longleftrightarrow>
       TaskRun_validate jl vs r = Inr r)"
proof -
  have one: "validate_source_properties out = Inr out \<longleftrightarrow>
      spec_required_present (out_source out) (out_source_properties out)"
    by (rule validate_source_properties_iff)
  have two: "spec_required_present (out_source out) (out_source_properties out)"
    if "TaskOutput_validate jl vs reqs out = Inr out"
    using that one TaskOutput_validate_iff [of jl vs reqs out] by blast
  have three: "(\<exists>e. validate_source_properties out = Inl e) \<and>
      (\<exists>e. TaskOutput_validate jl vs reqs out = Inl e)"
    if "\<not> spec_required_present (out_source out) (out_source_properties out)"
    using that one validate_source_properties_cases [of out]
      TaskOutput_validate_source_error [of out jl vs reqs] by blast
  have four: "validate_source_properties (out\<lparr>out_source_properties := props'\<rparr>)
         = Inr (out\<lparr>out_source_properties := props'\<rparr>) \<longleftrightarrow>
       validate_source_properties out = Inr out"
    if "\<forall>k \<in> set (required_keys (out_source out)). props' k = out_source_properties out k"
    using that by (simp add: validate_source_properties_iff spec_required_present_def)
  have five: "TaskRun_validate jl vs (r\<lparr>run_source := src, run_source_properties := props\<rparr>)
         = Inr (r\<lparr>run_source := src, run_source_properties := props\<rparr>) \<longleftrightarrow>
       TaskRun_validate jl vs r = Inr r"
    by (auto simp: TaskRun_validate_def validate_input_format_def
        split: parent_ref.splits option.splits)
  from one two three four five show ?thesis by blast
qed

theorem source_properties_required_keys_witness:
  "validate_source_properties
     (fixture_output ''Test output'' None NoParent) = Inr (fixture_output ''Test output'' None NoParent)
   \<and> validate_source_properties
       ((fixture_output ''Test output'' None NoParent)
          \<lparr>out_source_properties := [''creator'' \<mapsto> ''john_doe'', ''model_name'' \<mapsto> ''GPT-4'']\<rparr>)
     = Inr ((fixture_output ''Test output'' None NoParent)
          \<lparr>out_source_properties := [''creator'' \<mapsto> ''john_doe'', ''model_name'' \<mapsto> ''GPT-4'']\<rparr>)
   \<and> (\<exists>e. TaskOutput_validate fixture_json_loads fixture_validate_schema fixture_requirements
          ((fixture_output ''Test output'' None NoParent)\<lparr>out_source := synthetic\<rparr>) = Inl e)"
proof -
  have fields: "out_source (fixture_output tx rt p) = human"
      "out_source_properties (fixture_output tx rt p) = [''creator'' \<mapsto> ''john_doe'']"
    for tx rt p
    by (simp_all add: fixture_output_def)
  have ok: "spec_required_present human [''creator'' \<mapsto> ''john_doe'']"
    by (simp add: spec_required_present_def)
  have bad: "\<not> spec_required_present synthetic [''creator'' \<mapsto> ''john_doe'']"
    by (simp add: spec_required_present_def)
  show ?thesis
    using ok bad
      source_properties_required_keys [where out = "fixture_output ''Test output'' None NoParent"
        and jl = fixture_json_loads and vs = fixture_validate_schema
        and reqs = fixture_requirements
        and props' = "[''creator'' \<mapsto> ''john_doe'', ''model_name'' \<mapsto> ''GPT-4'']"
        and r = "fixture_run fixture_valid_text" and src = human and props = Map.empty]
      source_properties_required_keys [where
        out = "(fixture_output ''Test output'' None NoParent)\<lparr>out_source := synthetic\<rparr>"
        and jl = fixture_json_loads and vs = fixture_validate_schema
        and reqs = fixture_requirements and props' = "[''creator'' \<mapsto> ''john_doe'']"
        and r = "fixture_run fixture_valid_text" and src = human and props = Map.empty]
    by (simp add: fields)
qed

text \<open>
  C4, as the specification states it, fails on a TaskRun: the run of
  \<^verbatim>\<open>test_task_output_relationship\<close>, with source human and an empty \<open>source_properties\<close>
  under a task without schemas, passes its validation although the required key \<open>creator\<close>
  is missing (and so is \<open>created_by\<close>, which the table of DataSource requires for human).
  It also fails on forbidden keys: \<open>model_name\<close> is not allowed for human in
  the table of DataSource, the only table that forbids a key, and a human TaskOutput that
  carries it passes.
\<close>

theorem source_properties_counterexample:
  "TaskRun_validate fixture_json_loads fixture_validate_schema
     \<lparr>run_input = ''Test input'', run_source = human, run_source_properties = Map.empty,
      run_parent = IsInstance fixture_plain_task\<rparr>
   = Inr \<lparr>run_input = ''Test input'', run_source = human, run_source_properties = Map.empty,
      run_parent = IsInstance fixture_plain_task\<rparr>
   \<and> \<not> spec_required_present human Map.empty
   \<and> validate_properties \<lparr>ds_type = human, ds_properties = Map.empty\<rparr>
     = Inl (PropertyRequired ''created_by'' human)
   \<and> validate_properties
       \<lparr>ds_type = human,
        ds_properties = [''created_by'' \<mapsto> PStr ''john_doe'', ''model_name'' \<mapsto> PStr ''GPT-4'']\<rparr>
     = Inl (PropertyNotAllowed ''model_name'' human)
   \<and> TaskOutput_validate fixture_json_loads fixture_validate_schema fixture_requirements
       \<lparr>out_output = ''Test output'', out_source = human,
        out_source_properties = [''creator'' \<mapsto> ''john_doe'', ''model_name'' \<mapsto> ''GPT-4''],
        out_rating = None, out_fixed_output = None, out_parent = NoParent\<rparr>
     = Inr \<lparr>out_output = ''Test output'', out_source = human,
        out_source_properties = [''creator'' \<mapsto> ''john_doe'', ''model_name'' \<mapsto> ''GPT-4''],
        out_rating = None, out_fixed_output = None, out_parent = NoParent\<rparr>"
proof -
  have run: "TaskRun_validate fixture_json_loads fixture_validate_schema
     \<lparr>run_input = ''Test input'', run_source = human, run_source_properties = Map.empty,
      run_parent = IsInstance fixture_plain_task\<rparr>
   = Inr \<lparr>run_input = ''Test input'', run_source = human, run_source_properties = Map.empty,
      run_parent = IsInstance fixture_plain_task\<rparr>"
    by (simp add: TaskRun_validate_def validate_input_format_def fixture_plain_task_def)
  have req: "\<not> spec_required_present human Map.empty"
    by (simp add: spec_required_present_def)
  have ds0: "validate_properties \<lparr>ds_type = human, ds_properties = Map.empty\<rparr>
     = Inl (PropertyRequired ''created_by'' human)"
    by (simp add: validate_properties_def data_source_properties_def)
  have ds: "validate_properties
       \<lparr>ds_type = human,
        ds_properties = [''created_by'' \<mapsto> PStr ''john_doe'', ''model_name'' \<mapsto> PStr ''GPT-4'']\<rparr>
     = Inl (PropertyNotAllowed ''model_name'' human)"
    by (simp add: validate_properties_def data_source_properties_def)
  have out: "TaskOutput_validate fixture_json_loads fixture_validate_schema fixture_requirements
       \<lparr>out_output = ''Test output'', out_source = human,
        out_source_properties = [''creator'' \<mapsto> ''john_doe'', ''model_name'' \<mapsto> ''GPT-4''],
        out_rating = None, out_fixed_output = None, out_parent = NoParent\<rparr>
     = Inr \<lparr>out_output = ''Test output'', out_source = human,
        out_source_properties = [''creator'' \<mapsto> ''john_doe'', ''model_name'' \<mapsto> ''GPT-4''],
        out_rating = None, out_fixed_output = None, out_parent = NoParent\<rparr>"
    by (simp add: TaskOutput_validate_def validate_output_format_def task_for_validation_def
        parent_task_run_def validate_requirement_rating_keys_def validate_source_properties_def
        validate_source_properties_in_def)
  from run req ds0 ds out show ?thesis by blast
qed

section \<open>Validation of detached entities\<close>

lemma validate_source_properties_parent:
  "validate_source_properties (out\<lparr>out_parent := p\<rparr>) = Inr (out\<lparr>out_parent := p\<rparr>) \<longleftrightarrow>
     validate_source_properties out = Inr out"
  by (simp add: validate_source_properties_iff)

text \<open>
  C6. Let a Task declare an output schema that the output text of a TaskOutput violates.
  While the TaskOutput has no parent, or a parent TaskRun that itself has none, the schema
  validator and the rating-key validator return the TaskOutput unchanged, and the whole
  validation is that of the source properties alone: the output text does not make the
  construction fail. Once the TaskOutput is attached to a TaskRun under that Task, the schema
  validator and the whole validation, which a save runs, fail.
\<close>

theorem detached_validation_deferred:
  "run_parent r = IsInstance t \<and> output_json_schema t = Some s \<and>
   \<not> spec_conforms jl vs s (out_output out) \<and>
   (p = NoParent \<or> (\<exists>r0. p = IsInstance r0 \<and> run_parent r0 = NoParent)) \<longrightarrow>
     validate_output_format jl vs (out\<lparr>out_parent := p\<rparr>) = Inr (out\<lparr>out_parent := p\<rparr>)
   \<and> validate_requirement_rating_keys reqs (out\<lparr>out_parent := p\<rparr>)
       = Inr (out\<lparr>out_parent := p\<rparr>)
   \<and> TaskOutput_validate jl vs reqs (out\<lparr>out_parent := p\<rparr>)
       = validate_source_properties (out\<lparr>out_parent := p\<rparr>)
   \<and> (\<exists>e. validate_output_format jl vs (out\<lparr>out_parent := IsInstance r\<rparr>) = Inl e)
   \<and> (\<exists>e. TaskOutput_validate jl vs reqs (out\<lparr>out_parent := IsInstance r\<rparr>) = Inl e)"
proof (intro impI, elim conjE)
  assume par: "run_parent r = IsInstance t" and schema: "output_json_schema t = Some s"
    and bad: "\<not> spec_conforms jl vs s (out_output out)"
    and p: "p = NoParent \<or> (\<exists>r0. p = IsInstance r0 \<and> run_parent r0 = NoParent)"
  let ?d = "out\<lparr>out_parent := p\<rparr>"
  let ?a = "out\<lparr>out_parent := IsInstance r\<rparr>"
  from p have none: "task_for_validation ?d = Inr None"
    by (intro task_for_validation_detached) simp
  have some: "task_for_validation ?a = Inr (Some t)"
    using par by (intro task_for_validation_attached) simp_all
  have "validate_output_format jl vs ?a \<noteq> Inr ?a"
    using bad validate_output_format_iff [OF some schema, of jl vs] by simp
  then have fmt: "\<exists>e. validate_output_format jl vs ?a = Inl e"
    using validate_output_format_cases [of jl vs ?a] by blast
  then have "TaskOutput_validate jl vs reqs ?a \<noteq> Inr ?a"
    using TaskOutput_validate_iff [of jl vs reqs ?a] by auto
  then have all: "\<exists>e. TaskOutput_validate jl vs reqs ?a = Inl e"
    using TaskOutput_validate_cases [of jl vs reqs ?a] by blast
  show "validate_output_format jl vs ?d = Inr ?d
   \<and> validate_requirement_rating_keys reqs ?d = Inr ?d
   \<and> TaskOutput_validate jl vs reqs ?d = validate_source_properties ?d
   \<and> (\<exists>e. validate_output_format jl vs ?a = Inl e)
   \<and> (\<exists>e. TaskOutput_validate jl vs reqs ?a = Inl e)"
    using validate_output_format_deferred [OF none, of jl vs]
      validate_requirement_rating_keys_deferred [OF none, of reqs]
      TaskOutput_validate_detached [OF none, of jl vs reqs] fmt all
    by simp
qed

theorem detached_validation_deferred_witness:
  "TaskOutput_validate fixture_json_loads fixture_validate_schema fixture_requirements
     (fixture_output fixture_invalid_text None NoParent)
     = Inr (fixture_output fixture_invalid_text None NoParent)
   \<and> (\<exists>e. TaskOutput_validate fixture_json_loads fixture_validate_schema fixture_requirements
         (fixture_output fixture_invalid_text None (IsInstance (fixture_run fixture_valid_text)))
       = Inl e)"
proof -
  have bad: "\<not> spec_conforms fixture_json_loads fixture_validate_schema fixture_schema
      fixture_invalid_text"
    by (simp add: spec_conforms_def fixture_json_loads_def fixture_validate_schema_def
        fixture_valid_text_def fixture_invalid_text_def)
  have parent: "run_parent (fixture_run tx) = IsInstance fixture_task" for tx
    by (simp add: fixture_run_def)
  have schema: "output_json_schema fixture_task = Some fixture_schema"
    by (simp add: fixture_task_def)
  have upd: "(fixture_output tx rt q)\<lparr>out_parent := p\<rparr> = fixture_output tx rt p"
      "out_output (fixture_output tx rt q) = tx" for tx rt p q
    by (simp_all add: fixture_output_def)
  have src: "validate_source_properties (fixture_output tx rt p) = Inr (fixture_output tx rt p)"
    for tx rt p
    by (simp add: fixture_output_def validate_source_properties_def
        validate_source_properties_in_def)
  show ?thesis
    using bad
      detached_validation_deferred [where r = "fixture_run fixture_valid_text"
        and t = fixture_task and s = fixture_schema and jl = fixture_json_loads
        and vs = fixture_validate_schema and out = "fixture_output fixture_invalid_text None NoParent"
        and p = NoParent and reqs = fixture_requirements]
    by (simp add: parent schema upd src)
qed

text \<open>
  C10. The source-properties validator does not look at the parent: its verdict is the same
  whatever the parent is. For a TaskOutput without a parent the schema validator and the
  rating-key validator return the TaskOutput unchanged, so the whole validation is that of
  the source properties; with source human and an empty \<open>source_properties\<close> it fails at
  once with the error that lists the missing key \<open>creator\<close>.
\<close>

theorem source_properties_not_deferred:
  "(validate_source_properties (out\<lparr>out_parent := p\<rparr>) = Inr (out\<lparr>out_parent := p\<rparr>) \<longleftrightarrow>
      validate_source_properties out = Inr out)
   \<and> (out_parent out = NoParent \<longrightarrow>
        validate_output_format jl vs out = Inr out
      \<and> validate_requirement_rating_keys reqs out = Inr out
      \<and> TaskOutput_validate jl vs reqs out = validate_source_properties out
      \<and> (out_source out = human \<and> out_source_properties out = Map.empty \<longrightarrow>
           TaskOutput_validate jl vs reqs out = Inl (SourcePropertiesMissing [''creator''] human)))"
proof -
  have detached: "validate_output_format jl vs out = Inr out
      \<and> validate_requirement_rating_keys reqs out = Inr out
      \<and> TaskOutput_validate jl vs reqs out = validate_source_properties out"
    if "out_parent out = NoParent"
  proof -
    from that have none: "task_for_validation out = Inr None"
      by (intro task_for_validation_detached) simp
    show ?thesis
      using validate_output_format_deferred [OF none, of jl vs]
        validate_requirement_rating_keys_deferred [OF none, of reqs]
        TaskOutput_validate_detached [OF none, of jl vs reqs]
      by simp
  qed
  have missing: "validate_source_properties out = Inl (SourcePropertiesMissing [''creator''] human)"
    if "out_source out = human" "out_source_properties out = Map.empty"
    using that by (simp add: validate_source_properties_def validate_source_properties_in_def)
  from detached missing validate_source_properties_parent [where out = out and p = p]
  show ?thesis
    by simp
qed

theorem source_properties_not_deferred_witness:
  "TaskOutput_validate fixture_json_loads fixture_validate_schema fixture_requirements
     \<lparr>out_output = ''Test output'', out_source = human, out_source_properties = Map.empty,
      out_rating = None, out_fixed_output = None, out_parent = NoParent\<rparr>
   = Inl (SourcePropertiesMissing [''creator''] human)"
proof -
  let ?out = "\<lparr>out_output = ''Test output'', out_source = human,
      out_source_properties = Map.empty, out_rating = None, out_fixed_output = None,
      out_parent = NoParent\<rparr>"
  have "out_parent ?out = NoParent" "out_source ?out = human"
      "out_source_properties ?out = Map.empty"
    by simp_all
  with source_properties_not_deferred [where out = ?out and jl = fixture_json_loads
      and vs = fixture_validate_schema and reqs = fixture_requirements and p = NoParent]
  show ?thesis by blast
qed

section \<open>Round trip of save and load\<close>

lemma map_of_write_file: "map_of (write_file p doc fs) = (map_of fs)(p \<mapsto> doc)"
  by (induction fs) (auto simp: fun_eq_iff)

lemma map_filter_write_file:
  "(\<And>doc'. f (p, doc') = None) \<Longrightarrow>
     List.map_filter f (write_file p doc fs) = List.map_filter f fs"
  by (induction fs) (auto simp: map_filter_simps split: option.splits)

lemma parent_file_neq:
  assumes "length d' \<le> length d" "2 \<le> length d'"
  shows "file_path (parent_dir d') k' \<noteq> file_path d k"
proof
  assume "file_path (parent_dir d') k' = file_path d k"
  then have "length (file_path (parent_dir d') k') = length (file_path d k)" by simp
  with assms show False by (simp add: file_path_def parent_dir_def)
qed

lemma resolve_task_write:
  "length d' \<le> length d \<Longrightarrow>
     resolve_task (write_file (file_path d k) doc fs) d' = resolve_task fs d'"
  using parent_file_neq [of d' d task_kind k]
  by (simp add: resolve_task_def map_of_write_file)

lemma resolve_run_write:
  "resolve_run (write_file (file_path d k) doc fs) d = resolve_run fs d"
proof -
  have "length (parent_dir d) \<le> length d" by (simp add: parent_dir_def)
  then have "resolve_task (write_file (file_path d k) doc fs) (parent_dir d) =
      resolve_task fs (parent_dir d)"
    by (rule resolve_task_write)
  then show ?thesis
    using parent_file_neq [of d d task_run_kind k]
    by (simp add: resolve_run_def map_of_write_file split: option.splits fields.splits)
qed

lemma requirements_at_write:
  assumes "k \<noteq> task_requirement_kind"
  shows "requirements_at (write_file (file_path d k) doc fs) td = requirements_at fs td"
proof -
  from assms have "base_filename k \<noteq> base_filename task_requirement_kind"
    by (cases k) simp_all
  then have "requirement_of td (file_path d k, doc') = None" for doc'
    by (simp add: is_requirement_file_def file_path_def)
  then show ?thesis
    unfolding requirements_at_def by (rule map_filter_write_file)
qed

lemma validate_fields_write:
  "validate_fields lib (write_file (file_path d (kind_of f)) doc fs) d ident f =
     validate_fields lib fs d ident f"
  by (cases f)
    (simp_all add: resolve_task_write resolve_run_write requirements_at_write
      split: option.splits)

text \<open>
  C8. If \<open>save\<close> succeeds on an entity, then \<open>load\<close> of the path the entity then has,
  from the disk that \<open>save\<close> left, succeeds, and the entity it returns has the same
  persisted fields (\<open>id\<close>, \<open>created_at\<close>, \<open>created_by\<close> and the fields of its type) and
  the same path.
\<close>

theorem save_load_round_trip:
  "save lib new_id now fs e = Inr (fs', e') \<longrightarrow>
     (\<exists>p e''. entity_path e' = Some p \<and>
        load lib (kind_of (ent_fields e')) fs' p = Inr e'' \<and>
        persisted e'' = persisted e' \<and> entity_path e'' = Some p)"
proof
  assume saved: "save lib new_id now fs e = Inr (fs', e')"
  define ident where "ident = (case ent_id e of Some i \<Rightarrow> i | None \<Rightarrow> new_id)"
  define created where "created = (case ent_created_at e of Some c \<Rightarrow> c | None \<Rightarrow> now)"
  define doc where "doc = \<lparr>doc_id = ident, doc_created_at = created,
      doc_created_by = ent_created_by e, doc_fields = ent_fields e\<rparr>"
  from saved obtain d where d: "entity_dir e ident = Some d"
    and valid: "validate_fields lib fs d ident (ent_fields e) = None"
    and fs': "fs' = write_file (file_path d (kind_of (ent_fields e))) doc fs"
    and e': "e' = e\<lparr>ent_id := Some ident, ent_dir := Some d, ent_created_at := Some created\<rparr>"
    by (auto simp: save_def Let_def ident_def created_def doc_def split: option.splits)
  let ?k = "kind_of (ent_fields e)"
  let ?p = "file_path d ?k"
  have path: "entity_path e' = Some ?p"
    by (simp add: e' entity_path_def)
  have read: "map_of fs' ?p = Some doc"
    by (simp add: fs' map_of_write_file)
  have shape: "?p \<noteq> []" "last ?p = base_filename ?k" "butlast ?p = d"
    by (simp_all add: file_path_def)
  have again: "validate_fields lib fs' d ident (ent_fields e) = None"
    using valid by (simp add: fs' validate_fields_write)
  let ?loaded = "\<lparr>ent_id = Some ident, ent_dir = Some d, ent_parent_dir = None,
      ent_created_at = Some created, ent_created_by = ent_created_by e,
      ent_fields = ent_fields e\<rparr>"
  have "load lib ?k fs' ?p = Inr ?loaded"
    using read shape again by (simp add: load_def doc_def)
  moreover have "persisted ?loaded = persisted e'"
    by (simp add: persisted_def e')
  moreover have "entity_path ?loaded = Some ?p"
    by (simp add: entity_path_def)
  ultimately show "\<exists>p e''. entity_path e' = Some p \<and>
        load lib (kind_of (ent_fields e')) fs' p = Inr e'' \<and>
        persisted e'' = persisted e' \<and> entity_path e'' = Some p"
    using path by (auto simp: e')
qed

lemma fixture_save:
  "save fixture_library ''o1'' 5 fixture_disk fixture_new_output =
     Inr (write_file fixture_output_path fixture_output_document fixture_disk,
          fixture_new_output\<lparr>ent_id := Some ''o1'',
            ent_dir := Some [''proj'', ''tasks'', ''t1'', ''runs'', ''r1'', ''outputs'', ''o1''],
            ent_created_at := Some 5\<rparr>)"
proof -
  let ?d = "[''proj'', ''tasks'', ''t1'', ''runs'', ''r1'', ''outputs'', ''o1'']"
  have dir: "entity_dir fixture_new_output ''o1'' = Some ?d"
    by (simp add: entity_dir_def fixture_new_output_def fixture_output_fields_def)
  have run: "resolve_run fixture_disk ?d =
      IsInstance \<lparr>run_input = fixture_valid_text, run_source = human,
        run_source_properties = Map.empty, run_parent = IsInstance fixture_task\<rparr>"
    by (simp add: resolve_run_def resolve_task_def parent_dir_def file_path_def fixture_disk_def)
  have reqs: "map req_id (requirements_at fixture_disk (parent_dir (parent_dir ?d))) = [''id_req1'']"
    by (simp add: requirements_at_def parent_dir_def fixture_disk_def map_filter_simps
        is_requirement_file_def)
  have rating: "validate_rating (fixture_five_star [(''id_req1'', Finite 5)]) =
      Inr (fixture_five_star [(''id_req1'', Finite 5)])"
    by (simp add: validate_rating_def fixture_five_star_def validate_five_star_def)
  have loads: "fixture_json_loads fixture_valid_text =
      Some [(''name'', JString ''John Doe''), (''age'', JInteger 30)]"
    by (simp add: fixture_json_loads_def fixture_valid_text_def fixture_invalid_text_def)
  have ratings: "rating_requirement_ratings (fixture_five_star xs) = xs" for xs
    by (simp add: fixture_five_star_def)
  let ?out = "\<lparr>out_output = fixture_valid_text, out_source = human,
      out_source_properties = [''creator'' \<mapsto> ''john_doe''],
      out_rating = Some (fixture_five_star [(''id_req1'', Finite 5)]),
      out_fixed_output = None, out_parent = resolve_run fixture_disk ?d\<rparr>"
  have fmt: "validate_output_format fixture_json_loads fixture_validate_schema ?out = Inr ?out"
    by (simp add: run loads validate_output_format_def task_for_validation_def
        parent_task_run_def fixture_task_def fixture_validate_schema_def)
  have keys: "validate_requirement_rating_keys
      (\<lambda>task. requirements_at fixture_disk (parent_dir (parent_dir ?d))) ?out = Inr ?out"
    by (simp add: run reqs ratings validate_requirement_rating_keys_def
        task_for_validation_def parent_task_run_def)
  have src: "validate_source_properties ?out = Inr ?out"
    by (simp add: validate_source_properties_def validate_source_properties_in_def)
  have tov: "TaskOutput_validate fixture_json_loads fixture_validate_schema
      (\<lambda>task. requirements_at fixture_disk (parent_dir (parent_dir ?d))) ?out = Inr ?out"
    by (simp only: TaskOutput_validate_iff fmt keys src)
  have valid: "validate_fields fixture_library fixture_disk ?d ''o1'' fixture_output_fields = None"
    by (simp add: fixture_output_fields_def fixture_library_def rating tov failure_def)
  have ident: "(case ent_id fixture_new_output of Some i \<Rightarrow> i | None \<Rightarrow> ''o1'') = ''o1''"
    by (simp add: fixture_new_output_def)
  have created: "(case ent_created_at fixture_new_output of Some c \<Rightarrow> c | None \<Rightarrow> 5) = (5::nat)"
    by (simp add: fixture_new_output_def)
  have fields: "ent_fields fixture_new_output = fixture_output_fields"
    by (simp add: fixture_new_output_def)
  show ?thesis
    unfolding save_def Let_def ident created dir fields option.case valid
    by (simp add: fixture_output_path_def fixture_output_document_def file_path_def
        fixture_new_output_def fixture_output_fields_def)
qed

theorem save_load_round_trip_witness:
  "\<exists>e''. load fixture_library task_output_kind
            (write_file fixture_output_path fixture_output_document fixture_disk)
            fixture_output_path = Inr e''
        \<and> persisted e'' = (Some ''o1'', Some 5, None, fixture_output_fields)"
proof -
  let ?e' = "fixture_new_output\<lparr>ent_id := Some ''o1'',
      ent_dir := Some [''proj'', ''tasks'', ''t1'', ''runs'', ''r1'', ''outputs'', ''o1''],
      ent_created_at := Some 5\<rparr>"
  have path: "entity_path ?e' = Some fixture_output_path"
    by (simp add: entity_path_def fixture_new_output_def fixture_output_fields_def
        file_path_def fixture_output_path_def)
  have kind: "kind_of (ent_fields ?e') = task_output_kind"
    by (simp add: fixture_new_output_def fixture_output_fields_def)
  have pers: "persisted ?e' = (Some ''o1'', Some 5, None, fixture_output_fields)"
    by (simp add: persisted_def fixture_new_output_def)
  from save_load_round_trip [where lib = fixture_library and new_id = "''o1''" and now = 5
      and fs = fixture_disk and e = fixture_new_output
      and fs' = "write_file fixture_output_path fixture_output_document fixture_disk"
      and e' = ?e'] fixture_save
  show ?thesis
    by (simp only: path kind pers) auto
qed

end
